theory Spec2Isabelle
  imports Complex_Main "HOL-Library.Multiset" "HOL-Library.Log_Nat"
begin

section \<open>Floating-point numbers\<close>

text \<open>
  Amounts and balances are Python \<^verbatim>\<open>float\<close>s and SQLite \<^verbatim>\<open>REAL\<close>s: IEEE 754
  binary64 numbers. A \<open>double\<close> is a finite number (a rational that binary64
  represents), an infinity or NaN. The two zeros are not told apart: addition,
  subtraction and comparison, the only operations the code applies, give results that
  differ at most in the sign of a zero.
\<close>

datatype double = Finite rat | PInf | NInf | NaN

definition pow2 :: "int \<Rightarrow> rat" where
  "pow2 e = (if 0 \<le> e then 2 ^ nat e else 1 / 2 ^ nat (- e))"

text \<open>
  The binary exponent \<open>\<lfloor>log\<^sub>2 x\<rfloor>\<close> of a positive rational, from the bit lengths of its
  numerator and denominator.
\<close>

definition ilog2 :: "rat \<Rightarrow> int" where
  "ilog2 x =
     (case quotient_of x of
        (p, q) \<Rightarrow> (let d = bitlen p - bitlen q in if pow2 d \<le> x then d else d - 1))"

definition round_half_even :: "rat \<Rightarrow> int" where
  "round_half_even r =
     (let f = \<lfloor>r\<rfloor>; d = r - of_int f
      in if d < 1 / 2 then f else if 1 / 2 < d then f + 1 else if even f then f else f + 1)"

text \<open>
  Rounding to the nearest binary64 number, ties to the even significand: 53 significant
  bits, exponents from -1022 (below it the spacing stays \<open>2\<^sup>-\<^sup>1\<^sup>0\<^sup>7\<^sup>4\<close>) to 1023, and an
  infinity when the rounded number reaches \<open>2\<^sup>1\<^sup>0\<^sup>2\<^sup>4\<close>. \<^verbatim>\<open>float("0.1")\<close> is
  \<open>round_double (1 / 10)\<close>.
\<close>

definition round_double :: "rat \<Rightarrow> double" where
  "round_double x =
     (if x = 0 then Finite 0
      else (let e = max (ilog2 \<bar>x\<bar>) (- 1022)
            in if 1023 < e then (if 0 < x then PInf else NInf)
               else (let u = pow2 (e - 52); m = round_half_even (x / u)
                     in if e = 1023 \<and> \<bar>m\<bar> = 2 ^ 53 then (if 0 < x then PInf else NInf)
                        else Finite (of_int m * u))))"

text \<open>\<^verbatim>\<open>a + b\<close>, \<^verbatim>\<open>-a\<close> and \<^verbatim>\<open>a - b\<close> on floats.\<close>

fun dadd :: "double \<Rightarrow> double \<Rightarrow> double" where
  "dadd NaN _ = NaN"
| "dadd _ NaN = NaN"
| "dadd PInf NInf = NaN"
| "dadd NInf PInf = NaN"
| "dadd PInf _ = PInf"
| "dadd _ PInf = PInf"
| "dadd NInf _ = NInf"
| "dadd _ NInf = NInf"
| "dadd (Finite x) (Finite y) = round_double (x + y)"

fun dneg :: "double \<Rightarrow> double" where
  "dneg (Finite x) = Finite (- x)"
| "dneg PInf = NInf"
| "dneg NInf = PInf"
| "dneg NaN = NaN"

definition dsub :: "double \<Rightarrow> double \<Rightarrow> double" where
  "dsub a b = dadd a (dneg b)"

text \<open>\<^verbatim>\<open>a < b\<close> and \<^verbatim>\<open>a <= b\<close> on floats: every comparison with NaN is false.\<close>

fun dless :: "double \<Rightarrow> double \<Rightarrow> bool" where
  "dless NaN _ = False"
| "dless _ NaN = False"
| "dless (Finite x) (Finite y) = (x < y)"
| "dless NInf NInf = False"
| "dless NInf _ = True"
| "dless _ NInf = False"
| "dless PInf _ = False"
| "dless _ PInf = True"

definition dle :: "double \<Rightarrow> double \<Rightarrow> bool" where
  "dle a b = (a \<noteq> NaN \<and> b \<noteq> NaN \<and> \<not> dless b a)"

text \<open>The number a finite double stands for (0 for the others).\<close>

fun double_value :: "double \<Rightarrow> rat" where
  "double_value (Finite x) = x"
| "double_value _ = 0"

fun is_finite :: "double \<Rightarrow> bool" where
  "is_finite (Finite x) = True"
| "is_finite _ = False"

text \<open>
  A \<^verbatim>\<open>REAL\<close> column holds a double or \<^verbatim>\<open>NULL\<close> (\<open>None\<close>); Python reads \<^verbatim>\<open>NULL\<close> as
  \<^verbatim>\<open>None\<close>. SQLite has no NaN: a NaN that is bound to a parameter or that an expression
  yields is stored as \<^verbatim>\<open>NULL\<close>, and arithmetic on \<^verbatim>\<open>NULL\<close> gives \<^verbatim>\<open>NULL\<close>.
\<close>

type_synonym sql_real = "double option"

definition to_sql :: "double \<Rightarrow> sql_real" where
  "to_sql d = (if d = NaN then None else Some d)"

definition sql_add :: "sql_real \<Rightarrow> sql_real \<Rightarrow> sql_real" where
  "sql_add a b =
     (case a of
        None \<Rightarrow> None
      | Some x \<Rightarrow> (case b of None \<Rightarrow> None | Some y \<Rightarrow> to_sql (dadd x y)))"

definition sql_sub :: "sql_real \<Rightarrow> sql_real \<Rightarrow> sql_real" where
  "sql_sub a b =
     (case a of
        None \<Rightarrow> None
      | Some x \<Rightarrow> (case b of None \<Rightarrow> None | Some y \<Rightarrow> to_sql (dsub x y)))"

section \<open>The persistent store\<close>

text \<open>
  Both front-ends (\<^verbatim>\<open>app.py\<close>, the Flask handlers, and
  \<^verbatim>\<open>online-banking-system.py\<close>, the console class \<^verbatim>\<open>Bank\<close>) work on the same
  SQLite file \<^verbatim>\<open>bank.db\<close> with three tables. A table is the list of its rows in
  insertion (rowid) order. Timestamps (\<^verbatim>\<open>CURRENT_TIMESTAMP\<close>, one-second resolution)
  are natural numbers handed to each operation by its caller, one per \<^verbatim>\<open>INSERT\<close>.
\<close>

record account_row =
  acc_number :: string
  acc_name :: string
  acc_balance :: sql_real

record user_row =
  usr_username :: string
  usr_account_number :: string
  usr_password_hash :: string

record transaction_row =
  txn_id :: nat
  txn_account_number :: string
  txn_type :: string
  txn_amount :: sql_real
  txn_related_account :: "string option"
  txn_timestamp :: nat

record store =
  accounts :: "account_row list"
  users :: "user_row list"
  transactions :: "transaction_row list"
  sqlite_sequence :: nat

text \<open>Exceptions of the Python run time and of \<^verbatim>\<open>sqlite3\<close> that the code can meet.\<close>

datatype exn = TypeError | KeyError | IntegrityError | OperationalError

text \<open>
  What an operation reports. The source reports through flash messages (web) and printed
  lines (console); the constructors carry the names of the specification's taxonomy:
  \<^item> \<open>Unauthenticated\<close>: redirect to the login page / "Please login first."
  \<^item> \<open>RateLimited\<close>: "Too many requests. Please wait."
  \<^item> \<open>InvalidAmount\<close>: "Deposit amount must be positive", "Withdrawal amount must be positive"
  \<^item> \<open>InsufficientFunds\<close>: "Insufficient funds" / "Insufficient balance."
  \<^item> \<open>SelfTransfer\<close>: "Cannot transfer to your own account"
  \<^item> \<open>AccountNotFound\<close>: "Recipient account not found"
  \<^item> \<open>DuplicateUsername\<close>: "Username already exists"
  \<^item> \<open>InvalidCredentials\<close>: "Invalid username or password"
  \<^item> \<open>Cancelled\<close>: "Account deletion cancelled."
  \<^item> \<open>Caught e\<close>: the console's \<^verbatim>\<open>error_handler\<close> printed "An error occurred"
  \<^item> \<open>Uncaught e\<close>: the exception left the operation (HTTP 500, or the console process ends)
\<close>

datatype outcome =
    Success
  | Unauthenticated
  | RateLimited
  | InvalidAmount
  | InsufficientFunds
  | SelfTransfer
  | AccountNotFound
  | DuplicateUsername
  | InvalidCredentials
  | Cancelled
  | Caught exn
  | Uncaught exn

subsection \<open>The SQL statements the code issues\<close>

text \<open>\<^verbatim>\<open>SELECT ... FROM accounts WHERE account_number = ?\<close> with \<^verbatim>\<open>fetchone()\<close>.\<close>

definition select_account :: "store \<Rightarrow> string \<Rightarrow> account_row option" where
  "select_account db acct = find (\<lambda>r. acc_number r = acct) (accounts db)"

text \<open>\<^verbatim>\<open>SELECT ... FROM users WHERE username = ?\<close> with \<^verbatim>\<open>fetchone()\<close>.\<close>

definition select_user :: "store \<Rightarrow> string \<Rightarrow> user_row option" where
  "select_user db uname = find (\<lambda>r. usr_username r = uname) (users db)"

text \<open>
  \<^verbatim>\<open>UPDATE accounts SET balance = balance + ? WHERE account_number = ?\<close>, the
  parameter being a Python float.
\<close>

definition update_balance_add :: "double \<Rightarrow> string \<Rightarrow> store \<Rightarrow> store" where
  "update_balance_add amount acct db =
     db\<lparr>accounts :=
          map (\<lambda>r. if acc_number r = acct
                    then r\<lparr>acc_balance := sql_add (acc_balance r) (to_sql amount)\<rparr> else r)
            (accounts db)\<rparr>"

text \<open>\<^verbatim>\<open>UPDATE accounts SET balance = balance - ? WHERE account_number = ?\<close>\<close>

definition update_balance_sub :: "double \<Rightarrow> string \<Rightarrow> store \<Rightarrow> store" where
  "update_balance_sub amount acct db =
     db\<lparr>accounts :=
          map (\<lambda>r. if acc_number r = acct
                    then r\<lparr>acc_balance := sql_sub (acc_balance r) (to_sql amount)\<rparr> else r)
            (accounts db)\<rparr>"

text \<open>
  \<^verbatim>\<open>INSERT INTO transactions (account_number, type, amount[, related_account])\<close>:
  the id comes from the \<^verbatim>\<open>AUTOINCREMENT\<close> sequence, the timestamp from the column
  default \<^verbatim>\<open>CURRENT_TIMESTAMP\<close>. The table has no constraint that can fail.
\<close>

definition insert_transaction ::
  "string \<Rightarrow> string \<Rightarrow> double \<Rightarrow> string option \<Rightarrow> nat \<Rightarrow> store \<Rightarrow> store" where
  "insert_transaction acct kind amount related ts db =
     db\<lparr>transactions := transactions db @
            [\<lparr>txn_id = Suc (sqlite_sequence db), txn_account_number = acct, txn_type = kind,
              txn_amount = to_sql amount, txn_related_account = related, txn_timestamp = ts\<rparr>],
        sqlite_sequence := Suc (sqlite_sequence db)\<rparr>"

text \<open>
  \<^verbatim>\<open>INSERT INTO accounts VALUES (?, ?, ?)\<close>: \<^verbatim>\<open>account_number\<close> is the primary key,
  a second row with the same number raises \<^verbatim>\<open>sqlite3.IntegrityError\<close>.
\<close>

definition insert_account :: "account_row \<Rightarrow> store \<Rightarrow> exn + store" where
  "insert_account row db =
     (if acc_number row \<in> set (map acc_number (accounts db)) then Inl IntegrityError
      else Inr (db\<lparr>accounts := accounts db @ [row]\<rparr>))"

text \<open>
  \<^verbatim>\<open>INSERT INTO users VALUES (?, ?, ?)\<close>: \<^verbatim>\<open>username\<close> is the primary key and
  \<^verbatim>\<open>account_number\<close> is \<^verbatim>\<open>UNIQUE\<close>.
\<close>

definition insert_user :: "user_row \<Rightarrow> store \<Rightarrow> exn + store" where
  "insert_user row db =
     (if usr_username row \<in> set (map usr_username (users db)) then Inl IntegrityError
      else if usr_account_number row \<in> set (map usr_account_number (users db))
        then Inl IntegrityError
      else Inr (db\<lparr>users := users db @ [row]\<rparr>))"

text \<open>
  The account number of a new account, \<^verbatim>\<open>str(int(time.time()))[-10:]\<close>: the decimal
  digits of the clock in seconds, the last ten of them.
\<close>

function str_nat :: "nat \<Rightarrow> string" where
  "str_nat n =
     (if n < 10 then [''0123456789'' ! n]
      else str_nat (n div 10) @ [''0123456789'' ! (n mod 10)])"
  by pat_completeness auto
termination
  by (relation "measure (\<lambda>n. n)") auto

declare str_nat.simps [simp del]

definition last10 :: "string \<Rightarrow> string" where
  "last10 s = drop (length s - 10) s"

definition generate_account_number :: "nat \<Rightarrow> string" where
  "generate_account_number now = last10 (str_nat now)"

text \<open>
  The sum of all balances (a balance that is \<^verbatim>\<open>NULL\<close> or not finite counts as 0), and
  the balance the store holds for one account number.
\<close>

definition balance_value :: "sql_real \<Rightarrow> rat" where
  "balance_value b = (case b of None \<Rightarrow> 0 | Some d \<Rightarrow> double_value d)"

definition total_balance :: "store \<Rightarrow> rat" where
  "total_balance db = sum_list (map (\<lambda>r. balance_value (acc_balance r)) (accounts db))"

definition stored_balance :: "store \<Rightarrow> string \<Rightarrow> sql_real option" where
  "stored_balance db acct = map_option acc_balance (select_account db acct)"

text \<open>SQLite keeps no NaN: a store as the engine can hold it.\<close>

definition no_stored_NaN :: "store \<Rightarrow> bool" where
  "no_stored_NaN db = list_all (\<lambda>r. acc_balance r \<noteq> Some NaN) (accounts db)"

text \<open>No account is overdrawn.\<close>

definition all_balances_nonneg :: "store \<Rightarrow> bool" where
  "all_balances_nonneg db =
     list_all (\<lambda>r. case acc_balance r of None \<Rightarrow> False | Some b \<Rightarrow> dle (Finite 0) b)
       (accounts db)"

text \<open>The four kinds of transaction record, as the \<^verbatim>\<open>type\<close> column spells them.\<close>

definition transaction_kinds :: "string list" where
  "transaction_kinds = [''Deposit'', ''Withdrawal'', ''Transfer Sent'', ''Transfer Received'']"

section \<open>The web front-end (app.py)\<close>

text \<open>
  Flask's \<^verbatim>\<open>session\<close> holds \<^verbatim>\<open>username\<close> and \<^verbatim>\<open>account_number\<close> after a login and is
  empty otherwise. Every handler opens its own connection; what it has not committed when
  an exception leaves it is lost, so the store is then as before. The form's amount is
  taken after \<^verbatim>\<open>float(...)\<close>; comparing a float with the \<^verbatim>\<open>None\<close> read from a
  \<^verbatim>\<open>NULL\<close> balance raises \<^verbatim>\<open>TypeError\<close>.
\<close>

record web_session =
  ses_username :: string
  ses_account_number :: string

text \<open>\<^verbatim>\<open>register()\<close>, the POST branch; \<open>sha256\<close> stands for \<^verbatim>\<open>hash_password\<close>.\<close>

definition app_register ::
  "(string \<Rightarrow> string) \<Rightarrow> string \<Rightarrow> string \<Rightarrow> string \<Rightarrow> double \<Rightarrow> nat \<Rightarrow> store
     \<Rightarrow> outcome \<times> store" where
  "app_register sha256 uname password name initial_deposit now db =
     (case select_user db uname of
        Some _ \<Rightarrow> (DuplicateUsername, db)
      | None \<Rightarrow>
         (let account_number = generate_account_number now in
          case insert_account
                 \<lparr>acc_number = account_number, acc_name = name,
                  acc_balance = to_sql initial_deposit\<rparr> db of
            Inl e \<Rightarrow> (Uncaught e, db)
          | Inr db1 \<Rightarrow>
             (case insert_user
                     \<lparr>usr_username = uname, usr_account_number = account_number,
                      usr_password_hash = sha256 password\<rparr> db1 of
                Inl e \<Rightarrow> (Uncaught e, db)
              | Inr db2 \<Rightarrow> (Success, db2))))"

text \<open>\<^verbatim>\<open>login()\<close>, the POST branch: the new session, if any.\<close>

definition app_login ::
  "(string \<Rightarrow> string) \<Rightarrow> string \<Rightarrow> string \<Rightarrow> store \<Rightarrow> outcome \<times> web_session option" where
  "app_login sha256 uname password db =
     (case select_user db uname of
        None \<Rightarrow> (InvalidCredentials, None)
      | Some user \<Rightarrow>
         (if usr_password_hash user = sha256 password
          then (Success, Some \<lparr>ses_username = usr_username user,
                               ses_account_number = usr_account_number user\<rparr>)
          else (InvalidCredentials, None)))"

text \<open>\<^verbatim>\<open>deposit()\<close>\<close>

definition app_deposit :: "web_session option \<Rightarrow> double \<Rightarrow> nat \<Rightarrow> store \<Rightarrow> outcome \<times> store" where
  "app_deposit session amount ts db =
     (case session of
        None \<Rightarrow> (Unauthenticated, db)
      | Some s \<Rightarrow>
         (if dle amount (Finite 0) then (InvalidAmount, db)
          else (Success,
                insert_transaction (ses_account_number s) ''Deposit'' amount None ts
                  (update_balance_add amount (ses_account_number s) db))))"

text \<open>
  \<^verbatim>\<open>withdraw()\<close>: the balance is selected before the amount is looked at; with no such
  account row, \<^verbatim>\<open>account['balance']\<close> raises \<^verbatim>\<open>TypeError\<close> once the first test has let
  the amount through, and so does the comparison when the balance is \<^verbatim>\<open>NULL\<close>.
\<close>

definition app_withdraw :: "web_session option \<Rightarrow> double \<Rightarrow> nat \<Rightarrow> store \<Rightarrow> outcome \<times> store" where
  "app_withdraw session amount ts db =
     (case session of
        None \<Rightarrow> (Unauthenticated, db)
      | Some s \<Rightarrow>
         (let account = select_account db (ses_account_number s) in
          if dle amount (Finite 0) then (InvalidAmount, db)
          else (case account of
                  None \<Rightarrow> (Uncaught TypeError, db)
                | Some a \<Rightarrow>
                   (case acc_balance a of
                      None \<Rightarrow> (Uncaught TypeError, db)
                    | Some balance \<Rightarrow>
                       (if dless balance amount then (InsufficientFunds, db)
                        else (Success,
                              insert_transaction (ses_account_number s) ''Withdrawal'' amount None
                                  ts
                                (update_balance_sub amount (ses_account_number s) db)))))))"

text \<open>
  \<^verbatim>\<open>transfer()\<close>: the two \<^verbatim>\<open>UPDATE\<close>s and the two \<^verbatim>\<open>INSERT\<close>s run in one
  transaction. None of the four statements can fail on a constraint, so the
  \<^verbatim>\<open>except\<close> branch (rollback, "Transfer failed") is reached only when the storage
  engine itself fails, which is not modelled.
\<close>

definition app_transfer ::
  "web_session option \<Rightarrow> string \<Rightarrow> double \<Rightarrow> nat \<Rightarrow> nat \<Rightarrow> store \<Rightarrow> outcome \<times> store" where
  "app_transfer session to_account amount ts1 ts2 db =
     (case session of
        None \<Rightarrow> (Unauthenticated, db)
      | Some s \<Rightarrow>
         (if to_account = ses_account_number s then (SelfTransfer, db)
          else (case select_account db to_account of
                  None \<Rightarrow> (AccountNotFound, db)
                | Some recipient \<Rightarrow>
                   (case select_account db (ses_account_number s) of
                      None \<Rightarrow> (Uncaught TypeError, db)
                    | Some sender \<Rightarrow>
                       (case acc_balance sender of
                          None \<Rightarrow> (Uncaught TypeError, db)
                        | Some sender_balance \<Rightarrow>
                           (if dless sender_balance amount then (InsufficientFunds, db)
                            else (Success,
                                  insert_transaction to_account ''Transfer Received'' amount
                                      (Some (ses_account_number s)) ts2
                                    (insert_transaction (ses_account_number s) ''Transfer Sent''
                                        amount (Some to_account) ts1
                                      (update_balance_add amount to_account
                                        (update_balance_sub amount (ses_account_number s)
                                          db))))))))))"

text \<open>
  The dashboard's query,
  \<^verbatim>\<open>SELECT * FROM transactions WHERE account_number = ? ORDER BY timestamp DESC LIMIT n\<close>
  (\<open>n\<close> is 5 on the dashboard and 10 in the console). SQL fixes the order of the rows
  the \<^verbatim>\<open>ORDER BY\<close> key tells apart and leaves the order of rows with equal keys to the
  engine, so the query is a relation between the store and the rows it may return:
  any arrangement of the account's rows with the timestamps descending, cut after \<open>n\<close>.
\<close>

definition account_transactions :: "store \<Rightarrow> string \<Rightarrow> transaction_row list" where
  "account_transactions db acct = filter (\<lambda>t. txn_account_number t = acct) (transactions db)"

definition newest_first :: "transaction_row list \<Rightarrow> bool" where
  "newest_first rows = sorted_wrt (\<lambda>a b. txn_timestamp b \<le> txn_timestamp a) rows"

inductive select_transactions :: "nat \<Rightarrow> store \<Rightarrow> string \<Rightarrow> transaction_row list \<Rightarrow> bool"
  for n :: nat and db :: store and acct :: string where
  order_by_limit:
    "mset ordered = mset (account_transactions db acct) \<Longrightarrow>
     newest_first ordered \<Longrightarrow>
     select_transactions n db acct (take n ordered)"

text \<open>\<^verbatim>\<open>dashboard()\<close>: the transactions handed to the template.\<close>

definition app_dashboard :: "web_session option \<Rightarrow> store \<Rightarrow> transaction_row list \<Rightarrow> bool" where
  "app_dashboard session db rows =
     (case session of
        None \<Rightarrow> False
      | Some s \<Rightarrow> select_transactions 5 db (ses_account_number s) rows)"

section \<open>The console engine (online-banking-system.py)\<close>

subsection \<open>Session token\<close>

text \<open>
  \<^verbatim>\<open>jwt.encode\<close> and \<^verbatim>\<open>jwt.decode\<close> belong to the PyJWT library. A token is taken
  symbolically: the payload together with the key that signed it, or a string that is no
  token at all. \<open>jwt_decode\<close> follows the library's contract: a token that is malformed
  or signed with another key raises \<^verbatim>\<open>InvalidTokenError\<close>, one whose \<^verbatim>\<open>exp\<close> is not in
  the future raises \<^verbatim>\<open>ExpiredSignatureError\<close>.
\<close>

record jwt_payload =
  jwt_username :: string
  jwt_account_number :: string
  jwt_exp :: int

datatype jwt = Signed jwt_payload string | Malformed

datatype jwt_error = ExpiredSignatureError | InvalidTokenError

definition jwt_decode :: "jwt \<Rightarrow> string \<Rightarrow> real \<Rightarrow> jwt_error + jwt_payload" where
  "jwt_decode tok key now =
     (case tok of
        Malformed \<Rightarrow> Inl InvalidTokenError
      | Signed payload k \<Rightarrow>
         (if k \<noteq> key then Inl InvalidTokenError
          else if of_int (jwt_exp payload) \<le> now then Inl ExpiredSignatureError
          else Inr payload))"

definition TOKEN_EXPIRATION_MINUTES :: real where
  "TOKEN_EXPIRATION_MINUTES = 30"

text \<open>
  \<^verbatim>\<open>Bank._generate_token\<close>; \<open>now\<close> is the clock in seconds. The library encodes
  \<^verbatim>\<open>exp\<close> in whole seconds.
\<close>

definition generate_token :: "string \<Rightarrow> real \<Rightarrow> string \<Rightarrow> string \<Rightarrow> jwt" where
  "generate_token secret_key now uname account_number =
     Signed \<lparr>jwt_username = uname, jwt_account_number = account_number,
             jwt_exp = \<lfloor>now + TOKEN_EXPIRATION_MINUTES * 60\<rfloor>\<rparr> secret_key"

text \<open>
  \<^verbatim>\<open>Bank._verify_token\<close>: the payload, or \<^verbatim>\<open>None\<close> after printing "Token has expired.
  Please login again." (\<open>Inl ExpiredSignatureError\<close>) or "Invalid token. Please login
  again." (\<open>Inl InvalidTokenError\<close>). No method of \<^verbatim>\<open>Bank\<close> and no decorator calls it.
\<close>

definition verify_token :: "string \<Rightarrow> real \<Rightarrow> jwt \<Rightarrow> jwt_error + jwt_payload" where
  "verify_token secret_key now tok = jwt_decode tok secret_key now"

subsection \<open>The state of a \<^verbatim>\<open>Bank\<close> object\<close>

text \<open>
  \<^verbatim>\<open>self.current_user\<close> is a dictionary; \<^verbatim>\<open>login\<close> fills \<^verbatim>\<open>name\<close> and \<^verbatim>\<open>balance\<close> after
  the other two keys, so they can be absent (\<open>None\<close>); a balance that is present is the
  Python value read from the store or computed since, a float or \<^verbatim>\<open>None\<close>. \<open>conn\<close> is
  the store as the object's one connection sees it, \<open>in_transaction\<close> whether that
  connection has a transaction open (\<^verbatim>\<open>sqlite3\<close> opens one before an \<^verbatim>\<open>INSERT\<close> or
  \<^verbatim>\<open>UPDATE\<close> and \<^verbatim>\<open>commit()\<close> closes it). \<open>rate_limit_cache\<close> is the module's global
  dictionary.
\<close>

record user_info =
  cu_username :: string
  cu_account_number :: string
  cu_name :: "string option"
  cu_balance :: "sql_real option"

record bank =
  conn :: store
  in_transaction :: bool
  current_user :: "user_info option"
  token :: "jwt option"
  rate_limit_cache :: "string \<rightharpoonup> double"

subsection \<open>Decorators\<close>

definition authenticate :: "(bank \<Rightarrow> outcome \<times> bank) \<Rightarrow> bank \<Rightarrow> outcome \<times> bank" where
  "authenticate func self =
     (case current_user self of
        None \<Rightarrow> (Unauthenticated, self)
      | Some _ \<Rightarrow> func self)"

text \<open>
  \<^verbatim>\<open>rate_limiter\<close>: \<open>current_time\<close> is \<^verbatim>\<open>time.time()\<close>, a float. The attribute
  \<^verbatim>\<open>current_user\<close> always exists, so the account number is read from it; on \<^verbatim>\<open>None\<close>
  that raises \<^verbatim>\<open>TypeError\<close>.
\<close>

definition rate_limiter :: "double \<Rightarrow> (bank \<Rightarrow> outcome \<times> bank) \<Rightarrow> bank \<Rightarrow> outcome \<times> bank" where
  "rate_limiter current_time func self =
     (case current_user self of
        None \<Rightarrow> (Uncaught TypeError, self)
      | Some u \<Rightarrow>
         (if (case rate_limit_cache self (cu_account_number u) of
                Some t \<Rightarrow> dless (dsub current_time t) (Finite 2)
              | None \<Rightarrow> False)
          then (RateLimited, self)
          else func (self\<lparr>rate_limit_cache :=
                            (rate_limit_cache self)(cu_account_number u \<mapsto> current_time)\<rparr>)))"

subsection \<open>Operations\<close>

text \<open>
  \<^verbatim>\<open>Bank.register\<close> under \<^verbatim>\<open>error_handler\<close>. A failed \<^verbatim>\<open>INSERT\<close> leaves the
  transaction that \<^verbatim>\<open>sqlite3\<close> opened before it open, with what the first \<^verbatim>\<open>INSERT\<close>
  wrote still visible on the connection.
\<close>

definition bank_register ::
  "(string \<Rightarrow> string) \<Rightarrow> string \<Rightarrow> string \<Rightarrow> string \<Rightarrow> double \<Rightarrow> nat \<Rightarrow> bank
     \<Rightarrow> outcome \<times> bank" where
  "bank_register sha256 uname password name initial_deposit now self =
     (case select_user (conn self) uname of
        Some _ \<Rightarrow> (DuplicateUsername, self)
      | None \<Rightarrow>
         (let account_number = generate_account_number now in
          case insert_account
                 \<lparr>acc_number = account_number, acc_name = name,
                  acc_balance = to_sql initial_deposit\<rparr>
                 (conn self) of
            Inl e \<Rightarrow> (Caught e, self\<lparr>in_transaction := True\<rparr>)
          | Inr db1 \<Rightarrow>
             (case insert_user
                     \<lparr>usr_username = uname, usr_account_number = account_number,
                      usr_password_hash = sha256 password\<rparr> db1 of
                Inl e \<Rightarrow> (Caught e, self\<lparr>conn := db1, in_transaction := True\<rparr>)
              | Inr db2 \<Rightarrow> (Success, self\<lparr>conn := db2, in_transaction := False\<rparr>))))"

text \<open>
  \<^verbatim>\<open>Bank.login\<close> under \<^verbatim>\<open>error_handler\<close>: token and identity are set before the
  account row is read; with no such row \<^verbatim>\<open>account_details[0]\<close> raises \<^verbatim>\<open>TypeError\<close>,
  which the handler prints.
\<close>

definition bank_login ::
  "(string \<Rightarrow> string) \<Rightarrow> string \<Rightarrow> string \<Rightarrow> string \<Rightarrow> real \<Rightarrow> bank \<Rightarrow> outcome \<times> bank" where
  "bank_login sha256 secret_key uname password now self =
     (case select_user (conn self) uname of
        None \<Rightarrow> (InvalidCredentials, self)
      | Some user \<Rightarrow>
         (if usr_password_hash user \<noteq> sha256 password then (InvalidCredentials, self)
          else
           (let u = \<lparr>cu_username = usr_username user,
                     cu_account_number = usr_account_number user,
                     cu_name = None, cu_balance = None\<rparr>;
                self1 = self\<lparr>token := Some (generate_token secret_key now (usr_username user)
                                                (usr_account_number user)),
                             current_user := Some u\<rparr>
            in case select_account (conn self) (usr_account_number user) of
                 None \<Rightarrow> (Caught TypeError, self1)
               | Some account_details \<Rightarrow>
                  (Success,
                   self1\<lparr>current_user :=
                           Some (u\<lparr>cu_name := Some (acc_name account_details),
                                   cu_balance := Some (acc_balance account_details)\<rparr>)\<rparr>))))"

definition bank_logout :: "bank \<Rightarrow> outcome \<times> bank" where
  "bank_logout self = (Success, self\<lparr>current_user := None, token := None\<rparr>)"

text \<open>
  The body of \<^verbatim>\<open>Bank.deposit\<close>; the cached balance is updated after the commit, and
  \<^verbatim>\<open>+=\<close> on a cached \<^verbatim>\<open>None\<close> raises \<^verbatim>\<open>TypeError\<close>.
\<close>

definition deposit_body :: "double \<Rightarrow> nat \<Rightarrow> bank \<Rightarrow> outcome \<times> bank" where
  "deposit_body amount ts self =
     (case current_user self of
        None \<Rightarrow> (Uncaught TypeError, self)
      | Some u \<Rightarrow>
         (if dless (Finite 0) amount then
            (let self1 = self\<lparr>conn :=
                                insert_transaction (cu_account_number u) ''Deposit'' amount None ts
                                  (update_balance_add amount (cu_account_number u) (conn self)),
                              in_transaction := False\<rparr>
             in case cu_balance u of
                  None \<Rightarrow> (Uncaught KeyError, self1)
                | Some None \<Rightarrow> (Uncaught TypeError, self1)
                | Some (Some b) \<Rightarrow>
                   (Success,
                    self1\<lparr>current_user := Some (u\<lparr>cu_balance := Some (Some (dadd b amount))\<rparr>)\<rparr>))
          else (InvalidAmount, self)))"

definition bank_deposit :: "double \<Rightarrow> double \<Rightarrow> nat \<Rightarrow> bank \<Rightarrow> outcome \<times> bank" where
  "bank_deposit amount now ts = authenticate (rate_limiter now (deposit_body amount ts))"

text \<open>The body of \<^verbatim>\<open>Bank.withdraw\<close>: the amount is compared with the cached balance.\<close>

definition withdraw_body :: "double \<Rightarrow> nat \<Rightarrow> bank \<Rightarrow> outcome \<times> bank" where
  "withdraw_body amount ts self =
     (case current_user self of
        None \<Rightarrow> (Uncaught TypeError, self)
      | Some u \<Rightarrow>
         (case cu_balance u of
            None \<Rightarrow> (Uncaught KeyError, self)
          | Some None \<Rightarrow> (Uncaught TypeError, self)
          | Some (Some b) \<Rightarrow>
             (if dless b amount then (InsufficientFunds, self)
              else if dle amount (Finite 0) then (InvalidAmount, self)
              else (Success,
                    self\<lparr>conn :=
                           insert_transaction (cu_account_number u) ''Withdraw'' amount None ts
                             (update_balance_sub amount (cu_account_number u) (conn self)),
                         in_transaction := False,
                         current_user := Some (u\<lparr>cu_balance := Some (Some (dsub b amount))\<rparr>)\<rparr>))))"

definition bank_withdraw :: "double \<Rightarrow> double \<Rightarrow> nat \<Rightarrow> bank \<Rightarrow> outcome \<times> bank" where
  "bank_withdraw amount now ts = authenticate (rate_limiter now (withdraw_body amount ts))"

text \<open>
  The body of \<^verbatim>\<open>Bank.transfer_money\<close>. \<^verbatim>\<open>BEGIN TRANSACTION\<close> stands before the
  \<^verbatim>\<open>try\<close>: on a connection that already has a transaction open it raises
  \<^verbatim>\<open>OperationalError\<close>, which nothing catches. As in the web handler, the
  \<^verbatim>\<open>except\<close> branch needs a failure of the storage engine and is not modelled.
\<close>

definition transfer_money_body :: "string \<Rightarrow> double \<Rightarrow> nat \<Rightarrow> nat \<Rightarrow> bank \<Rightarrow> outcome \<times> bank" where
  "transfer_money_body to_account amount ts1 ts2 self =
     (case current_user self of
        None \<Rightarrow> (Uncaught TypeError, self)
      | Some u \<Rightarrow>
         (if to_account = cu_account_number u then (SelfTransfer, self)
          else (case select_account (conn self) to_account of
                  None \<Rightarrow> (AccountNotFound, self)
                | Some target_account \<Rightarrow>
                   (case cu_balance u of
                      None \<Rightarrow> (Uncaught KeyError, self)
                    | Some None \<Rightarrow> (Uncaught TypeError, self)
                    | Some (Some b) \<Rightarrow>
                       (if dless b amount then (InsufficientFunds, self)
                        else if in_transaction self then (Uncaught OperationalError, self)
                        else (Success,
                              self\<lparr>conn :=
                                     insert_transaction to_account ''Transfer Received'' amount
                                         (Some (cu_account_number u)) ts2
                                       (insert_transaction (cu_account_number u) ''Transfer Sent''
                                           amount (Some to_account) ts1
                                         (update_balance_add amount to_account
                                           (update_balance_sub amount (cu_account_number u)
                                             (conn self)))),
                                   in_transaction := False,
                                   current_user :=
                                     Some (u\<lparr>cu_balance := Some (Some (dsub b amount))\<rparr>)\<rparr>))))))"

definition bank_transfer_money ::
  "string \<Rightarrow> double \<Rightarrow> double \<Rightarrow> nat \<Rightarrow> nat \<Rightarrow> bank \<Rightarrow> outcome \<times> bank" where
  "bank_transfer_money to_account amount now ts1 ts2 =
     authenticate (rate_limiter now (transfer_money_body to_account amount ts1 ts2))"

text \<open>
  \<^verbatim>\<open>Bank.get_account_balance\<close> prints the cached balance with two decimals, which
  \<^verbatim>\<open>None\<close> does not support.
\<close>

definition bank_get_account_balance :: "bank \<Rightarrow> outcome \<times> bank" where
  "bank_get_account_balance =
     authenticate (\<lambda>self.
       case current_user self of
         None \<Rightarrow> (Uncaught TypeError, self)
       | Some u \<Rightarrow>
          (case cu_balance u of
             None \<Rightarrow> (Uncaught KeyError, self)
           | Some None \<Rightarrow> (Uncaught TypeError, self)
           | Some (Some b) \<Rightarrow> (Success, self)))"

text \<open>\<^verbatim>\<open>Bank.get_transaction_history\<close>: the rows it prints, and its (absent) effect.\<close>

definition bank_transaction_history_rows :: "bank \<Rightarrow> transaction_row list \<Rightarrow> bool" where
  "bank_transaction_history_rows self rows =
     (case current_user self of
        None \<Rightarrow> False
      | Some u \<Rightarrow> select_transactions 10 (conn self) (cu_account_number u) rows)"

definition bank_get_transaction_history :: "bank \<Rightarrow> outcome \<times> bank" where
  "bank_get_transaction_history = authenticate (\<lambda>self. (Success, self))"

text \<open>
  \<^verbatim>\<open>Bank.delete_account\<close>; \<open>confirm\<close> says whether the answer typed at the prompt is
  "yes" in any letter case.
\<close>

definition bank_delete_account :: "bool \<Rightarrow> bank \<Rightarrow> outcome \<times> bank" where
  "bank_delete_account confirm =
     authenticate (\<lambda>self.
       case current_user self of
         None \<Rightarrow> (Uncaught TypeError, self)
       | Some u \<Rightarrow>
          (if \<not> confirm then (Cancelled, self)
           else if in_transaction self then (Uncaught OperationalError, self)
           else (Success,
                 self\<lparr>conn := (conn self)
                         \<lparr>accounts :=
                            filter (\<lambda>r. acc_number r \<noteq> cu_account_number u) (accounts (conn self)),
                          users :=
                            filter (\<lambda>r. usr_account_number r \<noteq> cu_account_number u)
                              (users (conn self)),
                          transactions :=
                            filter (\<lambda>t. txn_account_number t \<noteq> cu_account_number u)
                              (transactions (conn self))\<rparr>,
                      in_transaction := False,
                      current_user := None,
                      token := None\<rparr>)))"

subsection \<open>A console session\<close>

text \<open>
  What the menu offers once a user is logged in. The process ends when an exception
  leaves an operation, so a run stops there.
\<close>

datatype bank_op =
    Op_deposit double double nat
  | Op_withdraw double double nat
  | Op_get_account_balance
  | Op_transfer_money string double double nat nat
  | Op_get_transaction_history
  | Op_delete_account bool
  | Op_logout

fun bank_step :: "bank \<Rightarrow> bank_op \<Rightarrow> outcome \<times> bank" where
  "bank_step self (Op_deposit amount now ts) = bank_deposit amount now ts self"
| "bank_step self (Op_withdraw amount now ts) = bank_withdraw amount now ts self"
| "bank_step self Op_get_account_balance = bank_get_account_balance self"
| "bank_step self (Op_transfer_money to_account amount now ts1 ts2) =
     bank_transfer_money to_account amount now ts1 ts2 self"
| "bank_step self Op_get_transaction_history = bank_get_transaction_history self"
| "bank_step self (Op_delete_account confirm) = bank_delete_account confirm self"
| "bank_step self Op_logout = bank_logout self"

fun is_uncaught :: "outcome \<Rightarrow> bool" where
  "is_uncaught (Uncaught e) = True"
| "is_uncaught _ = False"

fun bank_run :: "bank \<Rightarrow> bank_op list \<Rightarrow> bank" where
  "bank_run self [] = self"
| "bank_run self (op # ops) =
     (case bank_step self op of
        (out, self1) \<Rightarrow> if is_uncaught out then self1 else bank_run self1 ops)"

text \<open>
  The cached balance of the logged-in user agrees with the store: the account row
  exists and holds the value that \<^verbatim>\<open>current_user['balance']\<close> holds, which is not NaN
  (NaN equals nothing).
\<close>

definition cache_in_sync :: "bank \<Rightarrow> bool" where
  "cache_in_sync self =
     (case current_user self of
        None \<Rightarrow> True
      | Some u \<Rightarrow>
         (case cu_balance u of
            None \<Rightarrow> False
          | Some cached \<Rightarrow>
             cached \<noteq> Some NaN \<and>
             stored_balance (conn self) (cu_account_number u) = Some cached))"

text \<open>The amount an operation carries, if any, is a finite number.\<close>

fun finite_amount :: "bank_op \<Rightarrow> bool" where
  "finite_amount (Op_deposit amount now ts) = is_finite amount"
| "finite_amount (Op_withdraw amount now ts) = is_finite amount"
| "finite_amount (Op_transfer_money to_account amount now ts1 ts2) = is_finite amount"
| "finite_amount _ = True"

section \<open>Example states\<close>

text \<open>
  The store as \<^verbatim>\<open>initialize_database\<close> leaves it (the sample account of "Test User"
  with 10000.00), with one more registered account. \<open>sha0\<close> stands in for SHA-256 in
  these examples.
\<close>

definition sha0 :: "string \<Rightarrow> string" where
  "sha0 password = ''sha256:'' @ password"

definition db0 :: store where
  "db0 = \<lparr>accounts =
            [\<lparr>acc_number = ''1234567890'', acc_name = ''Test User'',
              acc_balance = Some (Finite 10000)\<rparr>,
             \<lparr>acc_number = ''1700000000'', acc_name = ''Second User'',
              acc_balance = Some (Finite 0)\<rparr>],
          users =
            [\<lparr>usr_username = ''test'', usr_account_number = ''1234567890'',
              usr_password_hash = sha0 ''test123''\<rparr>,
             \<lparr>usr_username = ''second'', usr_account_number = ''1700000000'',
              usr_password_hash = sha0 ''pw''\<rparr>],
          transactions = [],
          sqlite_sequence = 0\<rparr>"

text \<open>The web session of "test", and a console object on the same store.\<close>

definition session0 :: web_session where
  "session0 = \<lparr>ses_username = ''test'', ses_account_number = ''1234567890''\<rparr>"

definition bank0 :: bank where
  "bank0 = \<lparr>conn = db0, in_transaction = False, current_user = None, token = None,
            rate_limit_cache = Map.empty\<rparr>"

text \<open>The console after "test" has logged in at time 0.\<close>

definition bank1 :: bank where
  "bank1 = snd (bank_login sha0 ''secret'' ''test'' ''test123'' 0 bank0)"

text \<open>
  The console while "test" is logged in, after the web front-end has served a withdrawal
  of 9990.00 from the same account on the same file: the store holds 10.00, the console's
  cached balance is still 10000.00.
\<close>

definition bank_stale :: bank where
  "bank_stale = bank1\<lparr>conn := snd (app_withdraw (Some session0) (Finite 9990) 3 db0)\<rparr>"


text \<open>
  Two deposits of "test" through the web front-end within one second: both records carry
  the timestamp 100.
\<close>

definition db_same_second :: store where
  "db_same_second =
     snd (app_deposit (Some session0) (Finite 20) 100
            (snd (app_deposit (Some session0) (Finite 10) 100 db0)))"

definition first_deposit :: transaction_row where
  "first_deposit =
     \<lparr>txn_id = 1, txn_account_number = ''1234567890'', txn_type = ''Deposit'',
      txn_amount = Some (Finite 10), txn_related_account = None, txn_timestamp = 100\<rparr>"

definition second_deposit :: transaction_row where
  "second_deposit =
     \<lparr>txn_id = 2, txn_account_number = ''1234567890'', txn_type = ''Deposit'',
      txn_amount = Some (Finite 20), txn_related_account = None, txn_timestamp = 100\<rparr>"

text \<open>
  \<^verbatim>\<open>float("0.1")\<close>, \<^verbatim>\<open>float("0.2")\<close> and \<^verbatim>\<open>float("0.3")\<close>, and a store in which
  "Test User" holds 0.3 and "Second User" 0.1, with the web session of "second".
\<close>

definition float_0_1 :: double where
  "float_0_1 = round_double (1 / 10)"

definition float_0_2 :: double where
  "float_0_2 = round_double (2 / 10)"

definition float_0_3 :: double where
  "float_0_3 = round_double (3 / 10)"

definition db_tenths :: store where
  "db_tenths =
     db0\<lparr>accounts :=
           [\<lparr>acc_number = ''1234567890'', acc_name = ''Test User'',
             acc_balance = Some float_0_3\<rparr>,
            \<lparr>acc_number = ''1700000000'', acc_name = ''Second User'',
             acc_balance = Some float_0_1\<rparr>]\<rparr>"

definition session1 :: web_session where
  "session1 = \<lparr>ses_username = ''second'', ses_account_number = ''1700000000''\<rparr>"

text \<open>The console after "second" has logged in at time 0 on that store.\<close>

definition bank_tenths :: bank where
  "bank_tenths =
     snd (bank_login sha0 ''secret'' ''second'' ''pw'' 0 (bank0\<lparr>conn := db_tenths\<rparr>))"


section \<open>Facts about floating-point arithmetic\<close>

text \<open>Rounding never yields NaN, so neither does arithmetic on finite numbers.\<close>

lemma round_double_not_NaN: "round_double x \<noteq> NaN"
  by (simp add: round_double_def Let_def)

lemma dadd_finite_not_NaN: "a \<noteq> NaN \<Longrightarrow> dadd a (Finite y) \<noteq> NaN"
  by (cases a) (simp_all add: round_double_not_NaN)

lemma dsub_finite_not_NaN: "a \<noteq> NaN \<Longrightarrow> dsub a (Finite y) \<noteq> NaN"
  by (simp add: dsub_def dadd_finite_not_NaN)

lemma to_sql_Finite: "to_sql (Finite x) = Some (Finite x)"
  by (simp add: to_sql_def)

lemma to_sql_not_NaN: "d \<noteq> NaN \<Longrightarrow> to_sql d = Some d"
  by (simp add: to_sql_def)

lemma dsub_Finite: "dsub (Finite x) (Finite y) = round_double (x - y)"
  by (simp add: dsub_def)

text \<open>Whole numbers of the examples are doubles.\<close>

lemma round_double_examples:
  "round_double 9000 = Finite 9000"
  "round_double 1000 = Finite 1000"
  "round_double 10100 = Finite 10100"
  "round_double (- 100) = Finite (- 100)"
  "round_double 10 = Finite 10"
  "round_double (- 40) = Finite (- 40)"
  "round_double 9500 = Finite 9500"
  "round_double 10500 = Finite 10500"
  "round_double 15000 = Finite 15000"
  "round_double 20 = Finite 20"
  "round_double 30 = Finite 30"
  "round_double 10010 = Finite 10010"
  "round_double 10030 = Finite 10030"
  "round_double 10000 = Finite 10000"
  "round_double 60 = Finite 60"
  "round_double 2 = Finite 2"
  "round_double 9950 = Finite 9950"
  "round_double 500 = Finite 500"
  "round_double 0 = Finite 0"
  "round_double 1 = Finite 1"
  by code_simp+

text \<open>The decimal fractions of the examples, and what the arithmetic makes of them.\<close>

lemma float_tenths:
  "float_0_1 = Finite (3602879701896397 / 36028797018963968)"
  "float_0_2 = Finite (3602879701896397 / 18014398509481984)"
  "float_0_3 = Finite (5404319552844595 / 18014398509481984)"
  by code_simp+

lemma float_tenths_arith:
  "dadd float_0_1 float_0_2 = Finite (5404319552844596 / 18014398509481984)"
  "dsub float_0_3 float_0_2 = Finite (1801439850948198 / 18014398509481984)"
  "dsub (dadd float_0_1 float_0_2) float_0_2 = Finite (1801439850948199 / 18014398509481984)"
  by code_simp+

lemma float_tenths_tests:
  "dle float_0_2 (Finite 0) = False"
  "dless float_0_3 float_0_2 = False"
  "dless float_0_1 float_0_2 = True"
  "dless (dadd float_0_1 float_0_2) float_0_2 = False"
  "to_sql float_0_2 = Some float_0_2"
  "to_sql (dadd float_0_1 float_0_2) = Some (dadd float_0_1 float_0_2)"
  "to_sql (dsub float_0_3 float_0_2) = Some (dsub float_0_3 float_0_2)"
  "to_sql (dsub (dadd float_0_1 float_0_2) float_0_2) =
     Some (dsub (dadd float_0_1 float_0_2) float_0_2)"
  by code_simp+

section \<open>Facts about the SQL statements\<close>

lemma find_map_same_key:
  assumes "\<And>r. k (f r) = k r"
  shows "find (\<lambda>r. k r = a) (map f rs) = map_option f (find (\<lambda>r. k r = a) rs)"
  using assms by (induction rs) auto

lemma stored_balance_add:
  "stored_balance (update_balance_add x a db) b =
     (if b = a then map_option (\<lambda>v. sql_add v (to_sql x)) (stored_balance db b)
      else stored_balance db b)"
proof -
  let ?f = "\<lambda>r. if acc_number r = a
                 then r\<lparr>acc_balance := sql_add (acc_balance r) (to_sql x)\<rparr> else r"
  have "find (\<lambda>r. acc_number r = b) (map ?f (accounts db)) =
        map_option ?f (find (\<lambda>r. acc_number r = b) (accounts db))"
    by (rule find_map_same_key) simp
  then show ?thesis
    by (cases "find (\<lambda>r. acc_number r = b) (accounts db)")
       (auto simp: stored_balance_def select_account_def update_balance_add_def
             dest: find_Some_iff[THEN iffD1])
qed

lemma stored_balance_sub:
  "stored_balance (update_balance_sub x a db) b =
     (if b = a then map_option (\<lambda>v. sql_sub v (to_sql x)) (stored_balance db b)
      else stored_balance db b)"
proof -
  let ?f = "\<lambda>r. if acc_number r = a
                 then r\<lparr>acc_balance := sql_sub (acc_balance r) (to_sql x)\<rparr> else r"
  have "find (\<lambda>r. acc_number r = b) (map ?f (accounts db)) =
        map_option ?f (find (\<lambda>r. acc_number r = b) (accounts db))"
    by (rule find_map_same_key) simp
  then show ?thesis
    by (cases "find (\<lambda>r. acc_number r = b) (accounts db)")
       (auto simp: stored_balance_def select_account_def update_balance_sub_def
             dest: find_Some_iff[THEN iffD1])
qed

lemma stored_balance_insert_transaction [simp]:
  "stored_balance (insert_transaction acct kind amount related ts db) b = stored_balance db b"
  by (simp add: stored_balance_def select_account_def insert_transaction_def)

lemma select_account_stored:
  "select_account db a = Some r \<Longrightarrow> stored_balance db a = Some (acc_balance r)"
  by (simp add: stored_balance_def)

lemma stored_balance_Some_select:
  "stored_balance db a = Some v \<Longrightarrow> \<exists>r. select_account db a = Some r \<and> acc_balance r = v"
  by (auto simp: stored_balance_def)

lemma acc_numbers_update_sub [simp]:
  "map acc_number (accounts (update_balance_sub x a db)) = map acc_number (accounts db)"
  by (simp add: update_balance_sub_def comp_def if_distrib cong: if_cong)

lemma acc_numbers_update_add [simp]:
  "map acc_number (accounts (update_balance_add x a db)) = map acc_number (accounts db)"
  by (simp add: update_balance_add_def comp_def if_distrib cong: if_cong)




lemma total_balance_insert_transaction [simp]:
  "total_balance (insert_transaction acct kind amount related ts db) = total_balance db"
  by (simp add: total_balance_def insert_transaction_def)


lemma select_user_present:
  "uname \<in> set (map usr_username (users db)) \<Longrightarrow> \<exists>row. select_user db uname = Some row"
  by (cases "select_user db uname") (auto simp: select_user_def find_None_iff)

text \<open>The example states, evaluated.\<close>

lemma bank1_eq:
  "bank1 = \<lparr>conn = db0, in_transaction = False,
            current_user = Some \<lparr>cu_username = ''test'', cu_account_number = ''1234567890'',
                                 cu_name = Some ''Test User'',
                                 cu_balance = Some (Some (Finite 10000))\<rparr>,
            token = Some (Signed \<lparr>jwt_username = ''test'', jwt_account_number = ''1234567890'',
                                  jwt_exp = 1800\<rparr> ''secret''),
            rate_limit_cache = Map.empty\<rparr>"
  by (simp add: bank1_def bank_login_def bank0_def db0_def select_user_def select_account_def
        generate_token_def TOKEN_EXPIRATION_MINUTES_def sha0_def)

lemma bank_stale_conn:
  "conn bank_stale =
     \<lparr>accounts =
        [\<lparr>acc_number = ''1234567890'', acc_name = ''Test User'',
          acc_balance = Some (Finite 10)\<rparr>,
         \<lparr>acc_number = ''1700000000'', acc_name = ''Second User'',
          acc_balance = Some (Finite 0)\<rparr>],
      users = users db0,
      transactions =
        [\<lparr>txn_id = 1, txn_account_number = ''1234567890'', txn_type = ''Withdrawal'',
          txn_amount = Some (Finite 9990), txn_related_account = None, txn_timestamp = 3\<rparr>],
      sqlite_sequence = 1\<rparr>"
  by (simp add: bank_stale_def app_withdraw_def session0_def db0_def select_account_def dle_def
        update_balance_sub_def insert_transaction_def sql_sub_def to_sql_def dsub_def
        round_double_examples)




lemma float_tenths_sums:
  "double_value (dadd float_0_1 float_0_2) \<noteq> double_value float_0_1 + double_value float_0_2"
  "double_value (dsub float_0_3 float_0_2) + double_value (dadd float_0_1 float_0_2) \<noteq>
     double_value float_0_3 + double_value float_0_1"
  "dsub (dadd float_0_1 float_0_2) float_0_2 \<noteq> float_0_1"
  by code_simp+

lemma bank_tenths_eq:
  "bank_tenths = \<lparr>conn = db_tenths, in_transaction = False,
            current_user = Some \<lparr>cu_username = ''second'', cu_account_number = ''1700000000'',
                                 cu_name = Some ''Second User'',
                                 cu_balance = Some (Some float_0_1)\<rparr>,
            token = Some (Signed \<lparr>jwt_username = ''second'', jwt_account_number = ''1700000000'',
                                  jwt_exp = 1800\<rparr> ''secret''),
            rate_limit_cache = Map.empty\<rparr>"
  by (simp add: bank_tenths_def bank_login_def bank0_def db_tenths_def db0_def select_user_def
        select_account_def generate_token_def TOKEN_EXPIRATION_MINUTES_def sha0_def)

lemma deposit_tenths:
  "app_deposit (Some session1) float_0_2 7 db_tenths =
     (Success,
      db0\<lparr>accounts :=
            [\<lparr>acc_number = ''1234567890'', acc_name = ''Test User'',
              acc_balance = Some float_0_3\<rparr>,
             \<lparr>acc_number = ''1700000000'', acc_name = ''Second User'',
              acc_balance = Some (dadd float_0_1 float_0_2)\<rparr>],
          transactions :=
            [\<lparr>txn_id = 1, txn_account_number = ''1700000000'', txn_type = ''Deposit'',
              txn_amount = Some float_0_2, txn_related_account = None, txn_timestamp = 7\<rparr>],
          sqlite_sequence := 1\<rparr>)"
  by (simp add: app_deposit_def session1_def db_tenths_def db0_def
        update_balance_add_def insert_transaction_def sql_add_def float_tenths_tests)

lemma bank1_login:
  "bank_login sha0 ''secret'' ''test'' ''test123'' 0 bank0 = (Success, bank1)"
  by (simp add: bank1_def bank_login_def bank0_def db0_def select_user_def select_account_def
        sha0_def)

lemma bank1_after_deposit:
  "bank_run bank1 [Op_deposit (Finite 500) (Finite 60) 7] =
     snd (bank_deposit (Finite 500) (Finite 60) 7 bank1)"
  "fst (bank_deposit (Finite 500) (Finite 60) 7 bank1) = Success"
  "stored_balance (conn (snd (bank_deposit (Finite 500) (Finite 60) 7 bank1))) ''1234567890'' =
     Some (Some (Finite 10500))"
  "map_option cu_balance (current_user (snd (bank_deposit (Finite 500) (Finite 60) 7 bank1))) =
     Some (Some (Some (Finite 10500)))"
  by (simp_all add: bank1_eq bank_deposit_def authenticate_def rate_limiter_def deposit_body_def
        db0_def select_account_def stored_balance_def update_balance_add_def
        insert_transaction_def sql_add_def to_sql_def round_double_examples split: prod.splits)

section \<open>Transfers\<close>




text \<open>
  C3. A transfer request with an amount that is not positive should fail with
  \<open>InvalidAmount\<close> and change nothing. Neither \<^verbatim>\<open>transfer()\<close> nor
  \<^verbatim>\<open>Bank.transfer_money\<close> looks at the sign of the amount (\<^verbatim>\<open>deposit\<close> and
  \<^verbatim>\<open>withdraw\<close> do): a transfer of -100.00 from the sample account succeeds on both
  front-ends, adds 100.00 to the sender, takes 100.00 from the recipient and appends two
  records; a transfer of 0.00 succeeds and appends two records.
\<close>

theorem transfer_nonpositive_amount_accepted:
  "fst (app_transfer (Some session0) ''1700000000'' (Finite (- 100)) 7 7 db0) = Success \<and>
   stored_balance (snd (app_transfer (Some session0) ''1700000000'' (Finite (- 100)) 7 7 db0))
     ''1234567890'' = Some (Some (Finite 10100)) \<and>
   stored_balance (snd (app_transfer (Some session0) ''1700000000'' (Finite (- 100)) 7 7 db0))
     ''1700000000'' = Some (Some (Finite (- 100))) \<and>
   length (transactions
     (snd (app_transfer (Some session0) ''1700000000'' (Finite (- 100)) 7 7 db0))) = 2 \<and>
   fst (bank_transfer_money ''1700000000'' (Finite (- 100)) (Finite 60) 7 7 bank1) = Success \<and>
   conn (snd (bank_transfer_money ''1700000000'' (Finite (- 100)) (Finite 60) 7 7 bank1)) =
     snd (app_transfer (Some session0) ''1700000000'' (Finite (- 100)) 7 7 db0) \<and>
   fst (app_transfer (Some session0) ''1700000000'' (Finite 0) 7 7 db0) = Success \<and>
   length (transactions
     (snd (app_transfer (Some session0) ''1700000000'' (Finite 0) 7 7 db0))) = 2"
  by (simp add: app_transfer_def bank_transfer_money_def authenticate_def rate_limiter_def
        transfer_money_body_def bank1_eq session0_def db0_def select_account_def
        stored_balance_def update_balance_add_def update_balance_sub_def insert_transaction_def
        sql_add_def sql_sub_def to_sql_def dsub_def round_double_examples)

text \<open>
  C2. No sequence of operations should lead from a store without overdrawn accounts to
  one with an overdrawn account. The same transfer of -100.00 does: the recipient, who
  held 0.00, is left with -100.00, on the web front-end and on the console.
\<close>

theorem negative_transfer_overdraws_recipient:
  "all_balances_nonneg db0 \<and>
   fst (app_transfer (Some session0) ''1700000000'' (Finite (- 100)) 7 7 db0) = Success \<and>
   \<not> all_balances_nonneg
       (snd (app_transfer (Some session0) ''1700000000'' (Finite (- 100)) 7 7 db0)) \<and>
   all_balances_nonneg (conn bank1) \<and>
   fst (bank_transfer_money ''1700000000'' (Finite (- 100)) (Finite 60) 7 7 bank1) = Success \<and>
   \<not> all_balances_nonneg
       (conn (snd (bank_transfer_money ''1700000000'' (Finite (- 100)) (Finite 60) 7 7 bank1)))"
  by (simp add: all_balances_nonneg_def app_transfer_def bank_transfer_money_def authenticate_def
        rate_limiter_def transfer_money_body_def bank1_eq session0_def db0_def select_account_def
        update_balance_add_def update_balance_sub_def insert_transaction_def
        sql_add_def sql_sub_def to_sql_def dsub_def dle_def round_double_examples)

section \<open>Registration\<close>

text \<open>
  C5. A registration whose username is already in the users table reports
  \<open>DuplicateUsername\<close> and leaves the store (so the accounts table and the users table)
  exactly as it was, on the web front-end and on the console.
\<close>

theorem register_duplicate_username:
  assumes "uname \<in> set (map usr_username (users db))" and "conn self = db"
  shows "app_register sha256 uname password name initial_deposit now db = (DuplicateUsername, db) \<and>
         bank_register sha256 uname password name initial_deposit now self =
           (DuplicateUsername, self)"
proof -
  from select_user_present[OF assms(1)] obtain row where "select_user db uname = Some row"
    by blast
  with assms(2) show ?thesis
    by (simp add: app_register_def bank_register_def)
qed

theorem register_duplicate_username_witness:
  "app_register sha0 ''test'' ''other'' ''Somebody'' (Finite 50) 1700000123 db0 =
     (DuplicateUsername, db0) \<and>
   bank_register sha0 ''test'' ''other'' ''Somebody'' (Finite 50) 1700000123 bank0 =
     (DuplicateUsername, bank0)"
proof -
  have h1: "''test'' \<in> set (map usr_username (users db0))"
    by (simp add: db0_def)
  have h2: "conn bank0 = db0"
    by (simp add: bank0_def)
  from register_duplicate_username[OF h1 h2] show ?thesis .
qed

section \<open>Deposits and withdrawals\<close>

text \<open>What a deposit and a withdrawal of the console that report success have written.\<close>

lemma bank_deposit_success:
  assumes "bank_deposit amount now ts self = (Success, self1)" and "current_user self = Some u"
  shows "conn self1 =
           insert_transaction (cu_account_number u) ''Deposit'' amount None ts
             (update_balance_add amount (cu_account_number u) (conn self))"
    and "\<exists>u1. current_user self1 = Some u1 \<and> cu_account_number u1 = cu_account_number u"
  using assms
  by (auto simp: bank_deposit_def authenticate_def rate_limiter_def deposit_body_def Let_def
           split: option.splits if_splits)

lemma bank_withdraw_success:
  assumes "bank_withdraw amount now ts self = (Success, self1)" and "current_user self = Some u"
  shows "conn self1 =
           insert_transaction (cu_account_number u) ''Withdraw'' amount None ts
             (update_balance_sub amount (cu_account_number u) (conn self))"
  using assms
  by (auto simp: bank_withdraw_def authenticate_def rate_limiter_def withdraw_body_def
           split: option.splits if_splits)

text \<open>
  C8 as stated: a successful deposit of a positive amount followed by a successful
  withdrawal of the same amount leaves the balance of the account as it was. Balances are
  doubles: on the account holding 0.1, a deposit of 0.2 gives 0.30000000000000004 and
  the withdrawal of 0.2 leaves 0.10000000000000003, in the store through either
  front-end and in the console's cache.
\<close>

theorem round_trip_rounding_counterexample:
  "dless (Finite 0) float_0_2 \<and>
   stored_balance db_tenths ''1700000000'' = Some (Some float_0_1) \<and>
   fst (app_deposit (Some session1) float_0_2 7 db_tenths) = Success \<and>
   dle float_0_2 (dadd float_0_1 float_0_2) \<and>
   fst (app_withdraw (Some session1) float_0_2 8
          (snd (app_deposit (Some session1) float_0_2 7 db_tenths))) = Success \<and>
   stored_balance
     (snd (app_withdraw (Some session1) float_0_2 8
             (snd (app_deposit (Some session1) float_0_2 7 db_tenths))))
     ''1700000000'' = Some (Some (dsub (dadd float_0_1 float_0_2) float_0_2)) \<and>
   dsub (dadd float_0_1 float_0_2) float_0_2 \<noteq> float_0_1 \<and>
   float_0_1 = Finite (3602879701896397 / 36028797018963968) \<and>
   dsub (dadd float_0_1 float_0_2) float_0_2 = Finite (1801439850948199 / 18014398509481984) \<and>
   fst (bank_deposit float_0_2 (Finite 60) 7 bank_tenths) = Success \<and>
   fst (bank_withdraw float_0_2 (Finite 62) 8
          (snd (bank_deposit float_0_2 (Finite 60) 7 bank_tenths))) = Success \<and>
   map_option cu_balance
     (current_user (snd (bank_withdraw float_0_2 (Finite 62) 8
                           (snd (bank_deposit float_0_2 (Finite 60) 7 bank_tenths))))) =
     Some (Some (Some (dsub (dadd float_0_1 float_0_2) float_0_2)))"
proof -
  have c: "dless (Finite 0) float_0_2" "dle float_0_2 (dadd float_0_1 float_0_2)"
    by code_simp+
  have s0: "stored_balance db_tenths ''1700000000'' = Some (Some float_0_1)"
    by (simp add: stored_balance_def select_account_def db_tenths_def db0_def)
  have w: "fst (app_withdraw (Some session1) float_0_2 8
                  (snd (app_deposit (Some session1) float_0_2 7 db_tenths))) = Success"
    "stored_balance
       (snd (app_withdraw (Some session1) float_0_2 8
               (snd (app_deposit (Some session1) float_0_2 7 db_tenths))))
       ''1700000000'' = Some (Some (dsub (dadd float_0_1 float_0_2) float_0_2))"
    unfolding deposit_tenths snd_conv
    by (simp_all add: app_withdraw_def session1_def db0_def select_account_def
          stored_balance_def update_balance_sub_def insert_transaction_def sql_sub_def
          float_tenths_tests)
  have cd: "bank_deposit float_0_2 (Finite 60) 7 bank_tenths =
              (Success,
               bank_tenths\<lparr>rate_limit_cache := [''1700000000'' \<mapsto> Finite 60],
                     conn := snd (app_deposit (Some session1) float_0_2 7 db_tenths),
                     current_user :=
                       Some \<lparr>cu_username = ''second'', cu_account_number = ''1700000000'',
                             cu_name = Some ''Second User'',
                             cu_balance = Some (Some (dadd float_0_1 float_0_2))\<rparr>\<rparr>)"
    unfolding deposit_tenths snd_conv
    using c(1)
    by (simp add: bank_tenths_eq bank_deposit_def authenticate_def rate_limiter_def
          deposit_body_def db_tenths_def db0_def update_balance_add_def
          insert_transaction_def sql_add_def float_tenths_tests)
  have cw: "fst (bank_withdraw float_0_2 (Finite 62) 8
                  (snd (bank_deposit float_0_2 (Finite 60) 7 bank_tenths))) = Success"
    "map_option cu_balance
       (current_user (snd (bank_withdraw float_0_2 (Finite 62) 8
                             (snd (bank_deposit float_0_2 (Finite 60) 7 bank_tenths))))) =
       Some (Some (Some (dsub (dadd float_0_1 float_0_2) float_0_2)))"
    unfolding cd snd_conv
    by (simp_all add: bank_tenths_eq bank_withdraw_def authenticate_def rate_limiter_def
          withdraw_body_def dsub_Finite round_double_examples float_tenths_tests)
  show ?thesis
    using c s0 w cd cw deposit_tenths float_tenths_sums(3) float_tenths(1) float_tenths_arith(3)
    by simp
qed

text \<open>
  C8, amended. On an account whose stored balance is a finite number, a successful
  deposit of a positive amount followed by a successful withdrawal of the same amount,
  the amount not exceeding the balance at the time of the withdrawal, leaves the stored
  balance of the account what it was before the pair, provided the sum of balance and
  amount is not rounded (it is a double). The web handlers do succeed under these
  conditions.
\<close>

theorem deposit_withdraw_round_trip:
  assumes "0 < a"
    and "select_account db acct = Some r"
    and "acc_balance r = Some (Finite b)"
    and "round_double b = Finite b"
    and "round_double (b + a) = Finite (b + a)"
    and "a \<le> b + a"
    and "ses_account_number s = acct"
    and "db1 = snd (app_deposit (Some s) (Finite a) ts_d db)"
    and "db2 = snd (app_withdraw (Some s) (Finite a) ts_w db1)"
    and "conn self = db" and "current_user self = Some u"
    and "cu_account_number u = acct"
    and "bank_deposit (Finite a) now_d ts_d self = (Success, self1)"
    and "bank_withdraw (Finite a) now_w ts_w self1 = (Success, self2)"
  shows "fst (app_deposit (Some s) (Finite a) ts_d db) = Success \<and>
         fst (app_withdraw (Some s) (Finite a) ts_w db1) = Success \<and>
         stored_balance db1 acct = Some (Some (Finite (b + a))) \<and>
         stored_balance db2 acct = stored_balance db acct \<and>
         stored_balance (conn self1) acct = Some (Some (Finite (b + a))) \<and>
         stored_balance (conn self2) acct = stored_balance (conn self) acct"
proof -
  have sb: "stored_balance db acct = Some (Some (Finite b))"
    using select_account_stored[OF assms(2)] assms(3) by simp
  have add: "sql_add (Some (Finite b)) (to_sql (Finite a)) = Some (Finite (b + a))"
    by (simp add: sql_add_def to_sql_def assms(5))
  have sub: "sql_sub (Some (Finite (b + a))) (to_sql (Finite a)) = Some (Finite b)"
    by (simp add: sql_sub_def to_sql_def dsub_Finite assms(4))
  have d: "app_deposit (Some s) (Finite a) ts_d db =
             (Success, insert_transaction acct ''Deposit'' (Finite a) None ts_d
                         (update_balance_add (Finite a) acct db))"
    using assms(1,7) by (simp add: app_deposit_def dle_def)
  then have db1: "db1 = insert_transaction acct ''Deposit'' (Finite a) None ts_d
                          (update_balance_add (Finite a) acct db)"
    using assms(8) by simp
  have sb1: "stored_balance db1 acct = Some (Some (Finite (b + a)))"
    by (simp add: db1 stored_balance_add sb add)
  then obtain r1 where r1: "select_account db1 acct = Some r1"
    "acc_balance r1 = Some (Finite (b + a))"
    by (auto dest: stored_balance_Some_select)
  have w: "app_withdraw (Some s) (Finite a) ts_w db1 =
             (Success, insert_transaction acct ''Withdrawal'' (Finite a) None ts_w
                         (update_balance_sub (Finite a) acct db1))"
    using assms(1,6,7) r1 by (simp add: app_withdraw_def dle_def)
  then have db2: "db2 = insert_transaction acct ''Withdrawal'' (Finite a) None ts_w
                          (update_balance_sub (Finite a) acct db1)"
    using assms(9) by simp
  have sb2: "stored_balance db2 acct = stored_balance db acct"
    by (simp add: db2 stored_balance_sub sb1 sb sub)
  from bank_deposit_success[OF assms(13,11)] assms(10,12)
  have c1: "conn self1 = db1"
    and "\<exists>u1. current_user self1 = Some u1 \<and> cu_account_number u1 = acct"
    by (simp_all add: db1)
  then obtain u1 where u1: "current_user self1 = Some u1" "cu_account_number u1 = acct"
    by blast
  from bank_withdraw_success[OF assms(14) u1(1)] u1(2) c1
  have c2: "conn self2 = insert_transaction acct ''Withdraw'' (Finite a) None ts_w
                           (update_balance_sub (Finite a) acct db1)"
    by simp
  have sc2: "stored_balance (conn self2) acct = stored_balance (conn self) acct"
    by (simp add: c2 stored_balance_sub sb1 sb sub assms(10))
  show ?thesis
    using d w sb1 sb2 c1 sc2 by simp
qed

theorem deposit_withdraw_round_trip_witness:
  "fst (app_deposit (Some session0) (Finite 500) 7 db0) = Success \<and>
   fst (app_withdraw (Some session0) (Finite 500) 8
          (snd (app_deposit (Some session0) (Finite 500) 7 db0))) = Success \<and>
   stored_balance (snd (app_deposit (Some session0) (Finite 500) 7 db0)) ''1234567890'' =
     Some (Some (Finite 10500)) \<and>
   stored_balance
     (snd (app_withdraw (Some session0) (Finite 500) 8
             (snd (app_deposit (Some session0) (Finite 500) 7 db0))))
     ''1234567890'' = Some (Some (Finite 10000)) \<and>
   fst (bank_deposit (Finite 500) (Finite 60) 7 bank1) = Success \<and>
   fst (bank_withdraw (Finite 500) (Finite 62) 8
          (snd (bank_deposit (Finite 500) (Finite 60) 7 bank1))) = Success \<and>
   stored_balance
     (conn (snd (bank_withdraw (Finite 500) (Finite 62) 8
                   (snd (bank_deposit (Finite 500) (Finite 60) 7 bank1)))))
     ''1234567890'' = Some (Some (Finite 10000))"
proof -
  let ?r = "\<lparr>acc_number = ''1234567890'', acc_name = ''Test User'',
              acc_balance = Some (Finite 10000)\<rparr>"
  let ?u = "\<lparr>cu_username = ''test'', cu_account_number = ''1234567890'',
             cu_name = Some ''Test User'', cu_balance = Some (Some (Finite 10000))\<rparr>"
  let ?self1 = "snd (bank_deposit (Finite 500) (Finite 60) 7 bank1)"
  let ?self2 = "snd (bank_withdraw (Finite 500) (Finite 62) 8 ?self1)"
  have h1: "(0::rat) < 500"
    by simp
  have h2: "select_account db0 ''1234567890'' = Some ?r"
    by (simp add: db0_def select_account_def)
  have h3: "acc_balance ?r = Some (Finite 10000)"
    by simp
  have h4: "round_double 10000 = Finite 10000"
    and h5: "round_double (10000 + 500) = Finite (10000 + 500)"
    by (simp_all add: round_double_examples)
  have h6: "(500::rat) \<le> 10000 + 500"
    by simp
  have h7: "ses_account_number session0 = ''1234567890''"
    by (simp add: session0_def)
  have h10: "conn bank1 = db0" and h11: "current_user bank1 = Some ?u"
    by (simp_all add: bank1_eq)
  have h12: "cu_account_number ?u = ''1234567890''"
    by simp
  have o1: "fst (bank_deposit (Finite 500) (Finite 60) 7 bank1) = Success"
    by (simp add: bank1_eq bank_deposit_def authenticate_def rate_limiter_def deposit_body_def)
  have o2: "fst (bank_withdraw (Finite 500) (Finite 62) 8 ?self1) = Success"
    by (simp add: bank1_eq bank_deposit_def bank_withdraw_def authenticate_def rate_limiter_def
          deposit_body_def withdraw_body_def dsub_Finite dle_def round_double_examples)
  have h13: "bank_deposit (Finite 500) (Finite 60) 7 bank1 = (Success, ?self1)"
    using o1 by (simp add: prod_eq_iff)
  have h14: "bank_withdraw (Finite 500) (Finite 62) 8 ?self1 = (Success, ?self2)"
    using o2 by (simp add: prod_eq_iff)
  have sb: "stored_balance db0 ''1234567890'' = Some (Some (Finite 10000))"
    using select_account_stored[OF h2] by simp
  from deposit_withdraw_round_trip[where ts_d = 7 and ts_w = 8,
      OF h1 h2 h3 h4 h5 h6 h7 refl refl h10 h11 h12 h13 h14] sb h10 o1 o2
  show ?thesis
    by simp
qed


text \<open>
  The web handler refuses a withdrawal above the stored balance; so does the console
  method as long as its cached balance is the stored one.
\<close>

lemma app_withdraw_insufficient_funds:
  assumes "select_account db (ses_account_number s) = Some r"
    and "acc_balance r = Some balance"
    and "dless (Finite 0) amount" and "dless balance amount"
  shows "app_withdraw (Some s) amount ts db = (InsufficientFunds, db)"
  using assms by (auto simp: app_withdraw_def dle_def)

lemma bank_withdraw_insufficient_funds_in_sync:
  assumes "cache_in_sync self" and "current_user self = Some u"
    and "stored_balance (conn self) (cu_account_number u) = Some (Some balance)"
    and "dless (Finite 0) amount" and "dless balance amount"
    and "bank_withdraw amount now ts self = (out, self')"
  shows "(out = InsufficientFunds \<or> out = RateLimited) \<and> conn self' = conn self"
  using assms
  by (auto simp: bank_withdraw_def authenticate_def rate_limiter_def withdraw_body_def
        cache_in_sync_def split: option.splits if_splits)

text \<open>
  C4. A withdrawal of a positive amount greater than the balance the store holds at that
  moment should fail with \<open>InsufficientFunds\<close> and change nothing. \<^verbatim>\<open>withdraw()\<close> of
  the web front-end reads the balance from the store; \<^verbatim>\<open>Bank.withdraw\<close> compares with
  \<^verbatim>\<open>current_user['balance']\<close>, the balance cached at login. With 10.00 in the store
  and 10000.00 in the cache, the web handler refuses a withdrawal of 50.00 and the console
  performs it: the stored balance becomes -40.00 and a record is appended.
\<close>

theorem console_withdraw_checks_cached_balance:
  "stored_balance (conn bank_stale) ''1234567890'' = Some (Some (Finite 10)) \<and>
   map_option cu_balance (current_user bank_stale) = Some (Some (Some (Finite 10000))) \<and>
   fst (app_withdraw (Some session0) (Finite 50) 9 (conn bank_stale)) = InsufficientFunds \<and>
   fst (bank_withdraw (Finite 50) (Finite 60) 9 bank_stale) = Success \<and>
   stored_balance (conn (snd (bank_withdraw (Finite 50) (Finite 60) 9 bank_stale)))
     ''1234567890'' = Some (Some (Finite (- 40))) \<and>
   length (transactions (conn (snd (bank_withdraw (Finite 50) (Finite 60) 9 bank_stale)))) =
     Suc (length (transactions (conn bank_stale)))"
proof -
  have c: "current_user bank_stale = current_user bank1"
    "rate_limit_cache bank_stale = rate_limit_cache bank1"
    by (simp_all add: bank_stale_def)
  show ?thesis
    by (simp add: bank_stale_conn c bank1_eq app_withdraw_def bank_withdraw_def authenticate_def
          rate_limiter_def withdraw_body_def session0_def select_account_def stored_balance_def
          update_balance_sub_def insert_transaction_def sql_sub_def to_sql_def dsub_def dle_def
          round_double_examples)
qed

text \<open>
  A withdrawal that goes through, on either front-end: the balance written and the
  record appended.
\<close>

lemma app_withdraw_effect:
  assumes "select_account db (ses_account_number s) = Some r"
    and "acc_balance r = Some balance"
    and "dless (Finite 0) amount" and "dle amount balance"
    and "db' = snd (app_withdraw (Some s) amount ts db)"
  shows "fst (app_withdraw (Some s) amount ts db) = Success"
    and "stored_balance db' (ses_account_number s) = Some (to_sql (dsub balance amount))"
    and "transactions db' = transactions db @
           [\<lparr>txn_id = Suc (sqlite_sequence db), txn_account_number = ses_account_number s,
             txn_type = ''Withdrawal'', txn_amount = Some amount, txn_related_account = None,
             txn_timestamp = ts\<rparr>]"
proof -
  have n: "amount \<noteq> NaN"
    using assms(4) by (simp add: dle_def)
  have w: "app_withdraw (Some s) amount ts db =
             (Success, insert_transaction (ses_account_number s) ''Withdrawal'' amount None ts
                (update_balance_sub amount (ses_account_number s) db))"
    using assms(1-4) by (auto simp: app_withdraw_def dle_def)
  then show "fst (app_withdraw (Some s) amount ts db) = Success"
    by simp
  show "stored_balance db' (ses_account_number s) = Some (to_sql (dsub balance amount))"
    using w assms(2,5) n
    by (simp add: stored_balance_sub select_account_stored[OF assms(1)] sql_sub_def
          to_sql_not_NaN)
  show "transactions db' = transactions db @
           [\<lparr>txn_id = Suc (sqlite_sequence db), txn_account_number = ses_account_number s,
             txn_type = ''Withdrawal'', txn_amount = Some amount, txn_related_account = None,
             txn_timestamp = ts\<rparr>]"
    using w assms(5) n by (simp add: insert_transaction_def update_balance_sub_def to_sql_not_NaN)
qed

lemma bank_withdraw_effect:
  assumes "current_user self = Some u" and "cu_balance u = Some (Some balance)"
    and "stored_balance (conn self) (cu_account_number u) = Some (Some balance)"
    and "dless (Finite 0) amount" and "dle amount balance"
    and "\<not> (case rate_limit_cache self (cu_account_number u) of
               Some t \<Rightarrow> dless (dsub now t) (Finite 2) | None \<Rightarrow> False)"
    and "self' = snd (bank_withdraw amount now ts self)"
  shows "fst (bank_withdraw amount now ts self) = Success"
    and "stored_balance (conn self') (cu_account_number u) = Some (to_sql (dsub balance amount))"
    and "transactions (conn self') = transactions (conn self) @
           [\<lparr>txn_id = Suc (sqlite_sequence (conn self)), txn_account_number = cu_account_number u,
             txn_type = ''Withdraw'', txn_amount = Some amount, txn_related_account = None,
             txn_timestamp = ts\<rparr>]"
proof -
  have n: "amount \<noteq> NaN"
    using assms(5) by (simp add: dle_def)
  have w: "bank_withdraw amount now ts self =
             (Success,
              self\<lparr>rate_limit_cache := (rate_limit_cache self)(cu_account_number u \<mapsto> now),
                   conn := insert_transaction (cu_account_number u) ''Withdraw'' amount None ts
                             (update_balance_sub amount (cu_account_number u) (conn self)),
                   in_transaction := False,
                   current_user := Some (u\<lparr>cu_balance := Some (Some (dsub balance amount))\<rparr>)\<rparr>)"
    using assms(1,2,4-6)
    by (auto simp: bank_withdraw_def authenticate_def rate_limiter_def withdraw_body_def dle_def)
  then show "fst (bank_withdraw amount now ts self) = Success"
    by simp
  show "stored_balance (conn self') (cu_account_number u) = Some (to_sql (dsub balance amount))"
    using w assms(3,7) n by (simp add: stored_balance_sub sql_sub_def to_sql_not_NaN)
  show "transactions (conn self') = transactions (conn self) @
           [\<lparr>txn_id = Suc (sqlite_sequence (conn self)), txn_account_number = cu_account_number u,
             txn_type = ''Withdraw'', txn_amount = Some amount, txn_related_account = None,
             txn_timestamp = ts\<rparr>]"
    using w assms(7) n by (simp add: insert_transaction_def update_balance_sub_def to_sql_not_NaN)
qed

text \<open>
  C7. A successful withdrawal should take the amount from the stored balance and append
  one record of kind "Withdrawal". \<^verbatim>\<open>Bank.withdraw\<close> takes the amount from the balance
  and appends one record, but writes the kind as "Withdraw", which is none of the four
  kinds; \<^verbatim>\<open>withdraw()\<close> of the web front-end writes "Withdrawal" into the same table.
\<close>

theorem console_withdraw_record_kind:
  "fst (bank_withdraw (Finite 500) (Finite 60) 7 bank1) = Success \<and>
   stored_balance (conn (snd (bank_withdraw (Finite 500) (Finite 60) 7 bank1))) ''1234567890'' =
     Some (Some (Finite 9500)) \<and>
   transactions (conn (snd (bank_withdraw (Finite 500) (Finite 60) 7 bank1))) =
     [\<lparr>txn_id = 1, txn_account_number = ''1234567890'', txn_type = ''Withdraw'',
       txn_amount = Some (Finite 500), txn_related_account = None, txn_timestamp = 7\<rparr>] \<and>
   ''Withdraw'' \<notin> set transaction_kinds \<and>
   transactions (snd (app_withdraw (Some session0) (Finite 500) 7 db0)) =
     [\<lparr>txn_id = 1, txn_account_number = ''1234567890'', txn_type = ''Withdrawal'',
       txn_amount = Some (Finite 500), txn_related_account = None, txn_timestamp = 7\<rparr>] \<and>
   ''Withdrawal'' \<in> set transaction_kinds"
  by (simp add: bank1_eq app_withdraw_def bank_withdraw_def authenticate_def
        rate_limiter_def withdraw_body_def session0_def db0_def select_account_def
        stored_balance_def update_balance_sub_def insert_transaction_def transaction_kinds_def
        sql_sub_def to_sql_def dsub_def dle_def round_double_examples)

section \<open>Session expiry\<close>

text \<open>
  C9. An operation attempted with an expired or invalid session credential should be
  refused. \<^verbatim>\<open>Bank.login\<close> issues a token that expires after 30 minutes and
  \<^verbatim>\<open>Bank._verify_token\<close> rejects it afterwards, but the \<^verbatim>\<open>authenticate\<close> decorator only
  looks at \<^verbatim>\<open>current_user\<close> and nothing calls \<^verbatim>\<open>_verify_token\<close>: two hours after
  the login of "test" at time 0 the token is expired, yet deposit, withdraw, transfer and
  history are served; likewise with a token that is no token.
\<close>

theorem expired_token_still_authenticated:
  "token bank1 =
     Some (Signed \<lparr>jwt_username = ''test'', jwt_account_number = ''1234567890'', jwt_exp = 1800\<rparr>
             ''secret'') \<and>
   verify_token ''secret'' 7200
     (Signed \<lparr>jwt_username = ''test'', jwt_account_number = ''1234567890'', jwt_exp = 1800\<rparr>
        ''secret'') = Inl ExpiredSignatureError \<and>
   fst (bank_deposit (Finite 500) (Finite 7200) 9 bank1) = Success \<and>
   stored_balance (conn (snd (bank_deposit (Finite 500) (Finite 7200) 9 bank1))) ''1234567890'' =
     Some (Some (Finite 10500)) \<and>
   fst (bank_withdraw (Finite 500) (Finite 7200) 9 bank1) = Success \<and>
   fst (bank_transfer_money ''1700000000'' (Finite 500) (Finite 7200) 9 9 bank1) = Success \<and>
   fst (bank_get_transaction_history bank1) = Success \<and>
   verify_token ''secret'' 60 Malformed = Inl InvalidTokenError \<and>
   fst (bank_deposit (Finite 500) (Finite 60) 9 (bank1\<lparr>token := Some Malformed\<rparr>)) = Success"
  by (simp add: bank1_eq verify_token_def jwt_decode_def bank_deposit_def bank_withdraw_def
        bank_transfer_money_def bank_get_transaction_history_def authenticate_def
        rate_limiter_def deposit_body_def withdraw_body_def transfer_money_body_def
        db0_def select_account_def stored_balance_def update_balance_add_def
        update_balance_sub_def insert_transaction_def
        sql_add_def sql_sub_def to_sql_def dsub_def dle_def round_double_examples)

section \<open>Transaction history\<close>

text \<open>The query returns, whatever the store holds.\<close>

lemma select_transactions_total:
  "\<exists>rows. select_transactions n db acct rows"
proof -
  let ?all = "account_transactions db acct"
  let ?ordered = "rev (sort_key txn_timestamp ?all)"
  have "mset ?ordered = mset ?all"
    by simp
  moreover have "newest_first ?ordered"
    unfolding newest_first_def sorted_wrt_rev
    using sorted_sort_key[of txn_timestamp ?all] by (simp add: sorted_map)
  ultimately have "select_transactions n db acct (take n ?ordered)"
    by (rule order_by_limit)
  then show ?thesis ..
qed

text \<open>
  What every answer of the query has: it is as long as the limit allows, its rows are
  rows of the account, newest first, and no row left out is newer than a row returned.
\<close>

lemma select_transactions_sound:
  assumes "select_transactions n db acct rows"
  shows "length rows = min n (length (account_transactions db acct))"
    and "newest_first rows"
    and "mset rows \<subseteq># mset (account_transactions db acct)"
    and "\<forall>r \<in> set rows. \<forall>t \<in># mset (account_transactions db acct) - mset rows.
           txn_timestamp t \<le> txn_timestamp r"
  using assms
proof -
  from assms obtain ordered where
    m: "mset ordered = mset (account_transactions db acct)" and
    s: "newest_first ordered" and
    r: "rows = take n ordered"
    by (auto elim: select_transactions.cases)
  have len: "length ordered = length (account_transactions db acct)"
    using m by (rule mset_eq_length)
  show "length rows = min n (length (account_transactions db acct))"
    by (simp add: r len min.commute)
  have split: "ordered = rows @ drop n ordered"
    by (simp add: r)
  have sw: "sorted_wrt (\<lambda>a b. txn_timestamp b \<le> txn_timestamp a) (rows @ drop n ordered)"
    using s split by (simp add: newest_first_def)
  then show "newest_first rows"
    by (simp add: newest_first_def sorted_wrt_append)
  have ms: "mset (account_transactions db acct) = mset rows + mset (drop n ordered)"
    using m split by (metis mset_append)
  then show "mset rows \<subseteq># mset (account_transactions db acct)"
    by simp
  have "mset (account_transactions db acct) - mset rows = mset (drop n ordered)"
    using ms by simp
  then show "\<forall>r \<in> set rows. \<forall>t \<in># mset (account_transactions db acct) - mset rows.
           txn_timestamp t \<le> txn_timestamp r"
    using sw by (auto simp: sorted_wrt_append)
qed

text \<open>Conversely, every such list is an answer of the query.\<close>

lemma select_transactions_complete:
  assumes len: "length rows = min n (length (account_transactions db acct))"
    and srt: "newest_first rows"
    and sub: "mset rows \<subseteq># mset (account_transactions db acct)"
    and old: "\<forall>r \<in> set rows. \<forall>t \<in># mset (account_transactions db acct) - mset rows.
                txn_timestamp t \<le> txn_timestamp r"
  shows "select_transactions n db acct rows"
proof -
  let ?all = "account_transactions db acct"
  obtain rest where rest: "mset rest = mset ?all - mset rows"
    using ex_mset by blast
  let ?tail = "rev (sort_key txn_timestamp rest)"
  let ?ordered = "rows @ ?tail"
  have m: "mset ?ordered = mset ?all"
    using sub rest by simp
  have tail_sorted: "sorted_wrt (\<lambda>a b. txn_timestamp b \<le> txn_timestamp a) ?tail"
    unfolding sorted_wrt_rev
    using sorted_sort_key[of txn_timestamp rest] by (simp add: sorted_map)
  have cross: "\<forall>r \<in> set rows. \<forall>t \<in> set ?tail. txn_timestamp t \<le> txn_timestamp r"
  proof (intro ballI)
    fix r t assume r: "r \<in> set rows" and t: "t \<in> set ?tail"
    from t have "t \<in># mset rest" by simp
    with rest have "t \<in># mset ?all - mset rows" by simp
    with old r show "txn_timestamp t \<le> txn_timestamp r" by blast
  qed
  have s: "newest_first ?ordered"
    using srt tail_sorted cross by (simp add: newest_first_def sorted_wrt_append)
  have "length ?all = length rows + length rest"
    using m mset_eq_length[OF m] by simp
  with len have "length rows = n \<or> rest = []"
    by (auto simp: min_def split: if_splits)
  then have "take n ?ordered = rows"
    using len by auto
  with order_by_limit[OF m s, of n] show ?thesis
    by simp
qed

lemma db_same_second_transactions:
  "transactions db_same_second = [first_deposit, second_deposit]"
  by (simp add: db_same_second_def app_deposit_def session0_def db0_def dle_def
        update_balance_add_def insert_transaction_def first_deposit_def second_deposit_def
        sql_add_def to_sql_def round_double_examples)

lemma same_second_earlier_first:
  "select_transactions n db_same_second ''1234567890'' (take n [first_deposit, second_deposit])"
  by (rule order_by_limit)
     (simp_all add: account_transactions_def db_same_second_transactions newest_first_def
        first_deposit_def second_deposit_def)

lemma same_second_later_first:
  "select_transactions n db_same_second ''1234567890'' (take n [second_deposit, first_deposit])"
  by (rule order_by_limit)
     (simp_all add: account_transactions_def db_same_second_transactions newest_first_def
        first_deposit_def second_deposit_def)

text \<open>
  C6 as stated: the history holds at most \<open>limit\<close> records of the account, newest first,
  and of two records with equal timestamps the one inserted later comes first. The
  queries carry no second sort key, so nothing orders two records of the same second:
  after two deposits within one second, the answer that lists the earlier deposit first
  is an answer of the dashboard's query and of the console's.
\<close>

theorem history_tie_order_counterexample:
  "app_dashboard (Some session0) db_same_second [first_deposit, second_deposit] \<and>
   bank_transaction_history_rows (bank1\<lparr>conn := db_same_second\<rparr>)
     [first_deposit, second_deposit] \<and>
   transactions db_same_second = [first_deposit, second_deposit] \<and>
   txn_timestamp first_deposit = txn_timestamp second_deposit \<and>
   txn_id first_deposit < txn_id second_deposit"
  using same_second_earlier_first[of 5] same_second_earlier_first[of 10]
  by (simp add: app_dashboard_def bank_transaction_history_rows_def bank1_eq session0_def
        db_same_second_transactions first_deposit_def second_deposit_def)

text \<open>
  C6, amended. The limit is fixed by the front-end: 5 on the web dashboard, 10 in the
  console. Every answer holds the most recent records of the account, as many as the
  limit allows, ordered newest first by timestamp: it has \<open>min limit k\<close> rows when the
  account has \<open>k\<close> records, they are records of the account, their timestamps descend,
  and no record left out has a later timestamp than a record returned. The order among
  records with equal timestamps is not determined.
\<close>

theorem history_newest_first:
  assumes "app_dashboard (Some s) db rows"
    and "current_user self = Some u"
    and "bank_transaction_history_rows self rows'"
  shows "length rows \<le> 5 \<and>
         length rows = min 5 (length (account_transactions db (ses_account_number s))) \<and>
         mset rows \<subseteq># mset (account_transactions db (ses_account_number s)) \<and>
         newest_first rows \<and>
         (\<forall>r \<in> set rows. \<forall>t \<in># mset (account_transactions db (ses_account_number s)) - mset rows.
            txn_timestamp t \<le> txn_timestamp r) \<and>
         length rows' \<le> 10 \<and>
         length rows' = min 10 (length (account_transactions (conn self) (cu_account_number u))) \<and>
         mset rows' \<subseteq># mset (account_transactions (conn self) (cu_account_number u)) \<and>
         newest_first rows' \<and>
         (\<forall>r \<in> set rows'.
            \<forall>t \<in># mset (account_transactions (conn self) (cu_account_number u)) - mset rows'.
              txn_timestamp t \<le> txn_timestamp r)"
proof -
  have web: "select_transactions 5 db (ses_account_number s) rows"
    using assms(1) by (simp add: app_dashboard_def)
  have con: "select_transactions 10 (conn self) (cu_account_number u) rows'"
    using assms(2,3) by (simp add: bank_transaction_history_rows_def)
  show ?thesis
    using select_transactions_sound[OF web] select_transactions_sound[OF con]
    by simp
qed

theorem history_newest_first_witness:
  "length [second_deposit, first_deposit] \<le> 5 \<and>
   length [second_deposit, first_deposit] \<le> 10 \<and>
   newest_first [second_deposit, first_deposit] \<and>
   mset [second_deposit, first_deposit] \<subseteq>#
     mset (account_transactions db_same_second ''1234567890'')"
proof -
  let ?u = "\<lparr>cu_username = ''test'', cu_account_number = ''1234567890'',
             cu_name = Some ''Test User'', cu_balance = Some (Some (Finite 10000))\<rparr>"
  let ?rows = "[second_deposit, first_deposit]"
  have h1: "app_dashboard (Some session0) db_same_second ?rows"
    using same_second_later_first[of 5] by (simp add: app_dashboard_def session0_def)
  have h2: "current_user (bank1\<lparr>conn := db_same_second\<rparr>) = Some ?u"
    by (simp add: bank1_eq)
  have h3: "bank_transaction_history_rows (bank1\<lparr>conn := db_same_second\<rparr>) ?rows"
    using same_second_later_first[of 10]
    by (simp add: bank_transaction_history_rows_def bank1_eq)
  from history_newest_first[OF h1 h2 h3] show ?thesis
    by (simp add: session0_def)
qed

section \<open>The console's cached balance\<close>

text \<open>
  A login that succeeds takes the cached balance from the store; an operation with a
  finite amount applies the same arithmetic to the stored and to the cached balance.
\<close>

lemma login_sync:
  assumes "no_stored_NaN (conn self0)"
    and "bank_login sha256 secret_key uname password now self0 = (Success, self1)"
  shows "cache_in_sync self1"
proof -
  have "acc_balance r \<noteq> Some NaN" if "select_account (conn self0) a = Some r" for a r
    using that assms(1)
    by (auto simp: select_account_def find_Some_iff no_stored_NaN_def list_all_iff)
  with assms(2) show ?thesis
    by (auto simp: bank_login_def cache_in_sync_def Let_def stored_balance_def
             split: option.splits if_splits)
qed

lemma sql_add_in_sync:
  "c \<noteq> NaN \<Longrightarrow> sql_add (Some c) (to_sql (Finite y)) = Some (dadd c (Finite y))"
  by (simp add: sql_add_def to_sql_Finite to_sql_not_NaN dadd_finite_not_NaN)

lemma sql_sub_in_sync:
  "c \<noteq> NaN \<Longrightarrow> sql_sub (Some c) (to_sql (Finite y)) = Some (dsub c (Finite y))"
  by (simp add: sql_sub_def to_sql_Finite to_sql_not_NaN dsub_finite_not_NaN)

lemma sql_null_arith:
  "sql_add None b = None" "sql_sub None b = None"
  by (simp_all add: sql_add_def sql_sub_def)

lemma deposit_sync:
  assumes "cache_in_sync self" and "is_finite amount"
    and "bank_deposit amount now ts self = (out, self')"
  shows "cache_in_sync self'"
    and "out \<noteq> Success \<Longrightarrow> current_user self' = current_user self"
proof -
  from assms(2) obtain y where y: "amount = Finite y"
    by (cases amount) simp_all
  show "cache_in_sync self'"
    using assms(1,3) unfolding y
    by (auto simp: bank_deposit_def authenticate_def rate_limiter_def deposit_body_def
             cache_in_sync_def stored_balance_add Let_def sql_add_in_sync sql_null_arith
             dadd_finite_not_NaN
             split: option.splits if_splits)
  show "current_user self' = current_user self" if "out \<noteq> Success"
    using assms(1,3) that unfolding y
    by (auto simp: bank_deposit_def authenticate_def rate_limiter_def deposit_body_def Let_def
             split: option.splits if_splits)
qed

lemma withdraw_sync:
  assumes "cache_in_sync self" and "is_finite amount"
    and "bank_withdraw amount now ts self = (out, self')"
  shows "cache_in_sync self'"
    and "out \<noteq> Success \<Longrightarrow> current_user self' = current_user self"
proof -
  from assms(2) obtain y where y: "amount = Finite y"
    by (cases amount) simp_all
  show "cache_in_sync self'"
    using assms(1,3) unfolding y
    by (auto simp: bank_withdraw_def authenticate_def rate_limiter_def withdraw_body_def
             cache_in_sync_def stored_balance_sub sql_sub_in_sync dsub_finite_not_NaN
             split: option.splits if_splits)
  show "current_user self' = current_user self" if "out \<noteq> Success"
    using assms(1,3) that unfolding y
    by (auto simp: bank_withdraw_def authenticate_def rate_limiter_def withdraw_body_def
             split: option.splits if_splits)
qed

lemma transfer_sync:
  assumes "cache_in_sync self" and "is_finite amount"
    and "bank_transfer_money to_account amount now ts1 ts2 self = (out, self')"
  shows "cache_in_sync self'"
    and "out \<noteq> Success \<Longrightarrow> current_user self' = current_user self"
proof -
  from assms(2) obtain y where y: "amount = Finite y"
    by (cases amount) simp_all
  show "cache_in_sync self'"
    using assms(1,3) unfolding y
    by (auto simp: bank_transfer_money_def authenticate_def rate_limiter_def
             transfer_money_body_def cache_in_sync_def stored_balance_add stored_balance_sub
             sql_sub_in_sync dsub_finite_not_NaN
             split: option.splits if_splits)
  show "current_user self' = current_user self" if "out \<noteq> Success"
    using assms(1,3) that unfolding y
    by (auto simp: bank_transfer_money_def authenticate_def rate_limiter_def
             transfer_money_body_def
             split: option.splits if_splits)
qed

lemma other_ops_sync:
  assumes "cache_in_sync self"
  shows "bank_get_account_balance self = (out, self') \<Longrightarrow> self' = self"
    and "bank_get_transaction_history self = (out, self') \<Longrightarrow> self' = self"
    and "bank_delete_account confirm self = (out, self') \<Longrightarrow>
           cache_in_sync self' \<and> (out \<noteq> Success \<longrightarrow> self' = self)"
    and "bank_logout self = (out, self') \<Longrightarrow> cache_in_sync self' \<and> out = Success"
  using assms
  by (auto simp: bank_get_account_balance_def bank_get_transaction_history_def
           bank_delete_account_def bank_logout_def authenticate_def cache_in_sync_def
           split: option.splits if_splits)

lemma step_sync:
  assumes "cache_in_sync self" and "finite_amount op" and "bank_step self op = (out, self')"
  shows "cache_in_sync self' \<and> (out \<noteq> Success \<longrightarrow> current_user self' = current_user self)"
proof (cases op)
  case (Op_deposit amount now ts)
  with assms deposit_sync[of self amount now ts out self'] show ?thesis by simp
next
  case (Op_withdraw amount now ts)
  with assms withdraw_sync[of self amount now ts out self'] show ?thesis by simp
next
  case Op_get_account_balance
  with assms other_ops_sync(1)[of self out self'] show ?thesis by simp
next
  case (Op_transfer_money to_account amount now ts1 ts2)
  with assms transfer_sync[of self amount to_account now ts1 ts2 out self'] show ?thesis by simp
next
  case Op_get_transaction_history
  with assms other_ops_sync(2)[of self out self'] show ?thesis by simp
next
  case (Op_delete_account confirm)
  with assms other_ops_sync(3)[of self confirm out self'] show ?thesis by auto
next
  case Op_logout
  with assms other_ops_sync(4)[of self out self'] show ?thesis by simp
qed

lemma run_sync:
  "cache_in_sync self \<Longrightarrow> list_all finite_amount ops \<Longrightarrow> cache_in_sync (bank_run self ops)"
proof (induction ops arbitrary: self)
  case Nil
  then show ?case by simp
next
  case (Cons op ops)
  obtain out self1 where st: "bank_step self op = (out, self1)"
    by (cases "bank_step self op")
  with Cons.prems have "cache_in_sync self1"
    using step_sync[of self op out self1] by simp
  with st Cons.IH Cons.prems show ?case
    by simp
qed

lemma in_sync_same_user_same_balance:
  assumes "cache_in_sync self" and "cache_in_sync self'"
    and "current_user self' = current_user self" and "current_user self = Some u"
  shows "stored_balance (conn self') (cu_account_number u) =
         stored_balance (conn self) (cu_account_number u)"
  using assms by (auto simp: cache_in_sync_def split: option.splits)

text \<open>
  C10 as stated: within one console session the cached balance is the stored balance
  after every completed operation. \<^verbatim>\<open>float()\<close> accepts "nan" and "inf": a withdrawal
  of NaN passes both tests of \<^verbatim>\<open>Bank.withdraw\<close> and reports success, the store then
  holds \<^verbatim>\<open>NULL\<close> and the cache NaN; a deposit of infinity followed by a withdrawal of
  infinity ends the same way.
\<close>

theorem cached_balance_nan_counterexample:
  "cache_in_sync bank1 \<and>
   fst (bank_step bank1 (Op_withdraw NaN (Finite 60) 7)) = Success \<and>
   stored_balance (conn (snd (bank_step bank1 (Op_withdraw NaN (Finite 60) 7)))) ''1234567890'' =
     Some None \<and>
   map_option cu_balance (current_user (snd (bank_step bank1 (Op_withdraw NaN (Finite 60) 7)))) =
     Some (Some (Some NaN)) \<and>
   \<not> cache_in_sync (snd (bank_step bank1 (Op_withdraw NaN (Finite 60) 7))) \<and>
   fst (bank_step bank1 (Op_deposit PInf (Finite 60) 7)) = Success \<and>
   fst (bank_step (snd (bank_step bank1 (Op_deposit PInf (Finite 60) 7)))
          (Op_withdraw PInf (Finite 70) 8)) = Success \<and>
   \<not> cache_in_sync
       (snd (bank_step (snd (bank_step bank1 (Op_deposit PInf (Finite 60) 7)))
               (Op_withdraw PInf (Finite 70) 8)))"
  by (simp add: cache_in_sync_def bank1_eq bank_deposit_def bank_withdraw_def authenticate_def
        rate_limiter_def deposit_body_def withdraw_body_def dle_def dsub_def db0_def
        select_account_def stored_balance_def update_balance_add_def update_balance_sub_def
        insert_transaction_def sql_add_def sql_sub_def to_sql_def round_double_examples)

text \<open>
  C10, amended. In the console, within one session on a store that holds no NaN, and as
  long as the amounts of the operations are finite numbers (neither NaN nor an
  infinity), the cached balance \<^verbatim>\<open>current_user['balance']\<close> is the stored balance of
  the account after every completed operation: a successful login sets it from the
  store, every operation of the session keeps the two equal (so a successful deposit,
  withdrawal or transfer changes both by the same amount), and an operation that does
  not succeed leaves the identity with its cached balance and the stored balance of its
  account as they were.
\<close>

theorem cached_balance_in_sync:
  assumes "no_stored_NaN (conn self0)"
    and "bank_login sha256 secret_key uname password now self0 = (Success, self1)"
    and "list_all finite_amount ops"
    and "self = bank_run self1 ops"
    and "finite_amount op"
    and "bank_step self op = (out, self')"
  shows "cache_in_sync self1 \<and> cache_in_sync self \<and> cache_in_sync self' \<and>
         (out \<noteq> Success \<longrightarrow>
            current_user self' = current_user self \<and>
            (\<forall>u. current_user self = Some u \<longrightarrow>
                 stored_balance (conn self') (cu_account_number u) =
                 stored_balance (conn self) (cu_account_number u)))"
proof -
  have 1: "cache_in_sync self1"
    using assms(1,2) by (rule login_sync)
  then have 2: "cache_in_sync self"
    using assms(3,4) by (simp add: run_sync)
  from step_sync[OF 2 assms(5,6)]
  have 3: "cache_in_sync self'" and 4: "out \<noteq> Success \<longrightarrow> current_user self' = current_user self"
    by simp_all
  show ?thesis
    using 1 2 3 4 in_sync_same_user_same_balance[OF 2 3] by auto
qed

theorem cached_balance_in_sync_witness:
  "cache_in_sync bank1 \<and>
   cache_in_sync (bank_run bank1 [Op_deposit (Finite 500) (Finite 60) 7]) \<and>
   stored_balance (conn (bank_run bank1 [Op_deposit (Finite 500) (Finite 60) 7]))
     ''1234567890'' = Some (Some (Finite 10500)) \<and>
   map_option cu_balance (current_user (bank_run bank1 [Op_deposit (Finite 500) (Finite 60) 7])) =
     Some (Some (Some (Finite 10500))) \<and>
   fst (bank_step (bank_run bank1 [Op_deposit (Finite 500) (Finite 60) 7])
          (Op_withdraw (Finite 20000) (Finite 62) 8)) = InsufficientFunds \<and>
   cache_in_sync
     (snd (bank_step (bank_run bank1 [Op_deposit (Finite 500) (Finite 60) 7])
             (Op_withdraw (Finite 20000) (Finite 62) 8))) \<and>
   current_user
     (snd (bank_step (bank_run bank1 [Op_deposit (Finite 500) (Finite 60) 7])
             (Op_withdraw (Finite 20000) (Finite 62) 8))) =
     current_user (bank_run bank1 [Op_deposit (Finite 500) (Finite 60) 7])"
proof -
  let ?self = "bank_run bank1 [Op_deposit (Finite 500) (Finite 60) 7]"
  have h1: "no_stored_NaN (conn bank0)"
    by (simp add: no_stored_NaN_def bank0_def db0_def)
  have h3: "list_all finite_amount [Op_deposit (Finite 500) (Finite 60) 7]"
    and h5: "finite_amount (Op_withdraw (Finite 20000) (Finite 62) 8)"
    by simp_all
  have out: "fst (bank_step ?self (Op_withdraw (Finite 20000) (Finite 62) 8)) = InsufficientFunds"
    by (simp add: bank1_eq bank_deposit_def bank_withdraw_def authenticate_def rate_limiter_def
          deposit_body_def withdraw_body_def dsub_Finite round_double_examples)
  have h6: "bank_step ?self (Op_withdraw (Finite 20000) (Finite 62) 8) =
              (InsufficientFunds, snd (bank_step ?self (Op_withdraw (Finite 20000) (Finite 62) 8)))"
    using out by (simp add: prod_eq_iff)
  from cached_balance_in_sync[OF h1 bank1_login h3 refl h5 h6] out bank1_after_deposit
  show ?thesis
    by simp
qed

end
